theory Spec2Isabelle
  imports Main "HOL-Library.Word" "HOL-Library.AList" "HOL-Library.Char_ord"
    "HOL-Library.List_Lexorder"
begin

section \<open>Errors\<close>

text \<open>
  Go errors as values. \<open>ErrHashringsEmpty\<close> is the sentinel of package \<open>receive\<close>;
  \<open>ErrNotFound\<close> is an API status error whose reason is NotFound; \<open>ErrApi\<close> is any
  other client or transport error; \<open>ErrWrap msg e\<close> is \<open>fmt.Errorf("msg: %w", e)\<close>;
  \<open>Errorf msg n\<close> is \<open>fmt.Errorf\<close> with one \<open>%d\<close> argument and no wrapped cause.
\<close>

datatype Err =
    ErrHashringsEmpty
  | ErrNotFound
  | ErrApi string
  | ErrWrap string Err
  | Errorf string int

text \<open>\<open>errors.Is\<close>: the target is compared with every error of the wrap chain.\<close>

fun errorsIs :: "Err \<Rightarrow> Err \<Rightarrow> bool" where
  "errorsIs (ErrWrap m e) t = (ErrWrap m e = t \<or> errorsIs e t)"
| "errorsIs e t = (e = t)"

text \<open>\<open>apierrors.IsNotFound\<close>: the status reason of the error, looked up through wrapping.\<close>

fun IsNotFound :: "Err \<Rightarrow> bool" where
  "IsNotFound ErrNotFound = True"
| "IsNotFound (ErrWrap m e) = IsNotFound e"
| "IsNotFound e = False"

section \<open>Kubernetes objects\<close>

text \<open>
  \<open>metav1.ObjectMeta\<close>, embedded in every object. \<open>DeletionTimestamp\<close> is a pointer to a
  time; the time is counted from Go's zero instant, so \<open>Some 0\<close> is the zero time.
\<close>

record ObjectMeta =
  Name :: string
  Namespace :: string
  Labels :: "string \<rightharpoonup> string"
  DeletionTimestamp :: "nat option"
  Finalizers :: "string list"
  OwnerReferences :: "(string \<times> string) list"

type_synonym NamespacedName = "string \<times> string"

text \<open>\<open>metav1.HasLabel\<close>: the key is present, whatever its value.\<close>

definition HasLabel :: "'a ObjectMeta_scheme \<Rightarrow> string \<Rightarrow> bool" where
  "HasLabel obj l = (Labels obj l \<noteq> None)"

text \<open>\<open>(*metav1.Time).IsZero\<close>: a nil pointer and the zero instant are both zero.\<close>

definition IsZero :: "nat option \<Rightarrow> bool" where
  "IsZero t = (case t of None \<Rightarrow> True | Some n \<Rightarrow> n = 0)"

record ServicePort =
  spName :: string
  spPort :: "32 word"

record Service = ObjectMeta +
  Ports :: "ServicePort list"

section \<open>Query tier: endpoint observer\<close>

text \<open>
  \<open>manifestquery.EndpointType\<close> is a string type; its four constants are also the label
  keys looked up on a service. Their values are declared outside the sources at hand, so
  the functions below take them as a parameter.
\<close>

type_synonym EndpointType = string

record EndpointTypes =
  RegularLabel :: EndpointType
  StrictLabel :: EndpointType
  GroupLabel :: EndpointType
  GroupStrictLabel :: EndpointType

record Endpoint =
  ServiceName :: string
  epNamespace :: string
  Type :: EndpointType
  Port :: "32 word"

text \<open>The zero value of the struct, as \<open>make([]Endpoint, n)\<close> fills the slice.\<close>

definition zeroEndpoint :: Endpoint where
  "zeroEndpoint = \<lparr>ServiceName = [], epNamespace = [], Type = [], Port = 0\<rparr>"

text \<open>
  The inner loop of \<open>getStoreAPIServiceEndpoints\<close>: the first port named \<open>grpc\<close> is
  written to \<open>endpoints[i].Port\<close>, and the loop breaks.
\<close>

fun setGrpcPort :: "ServicePort list \<Rightarrow> nat \<Rightarrow> Endpoint list \<Rightarrow> Endpoint list" where
  "setGrpcPort [] i endpoints = endpoints"
| "setGrpcPort (port # ports) i endpoints =
     (if spName port = ''grpc''
      then endpoints[i := (endpoints ! i)\<lparr>Port := spPort port\<rparr>]
      else setGrpcPort ports i endpoints)"

text \<open>The if / else-if chain on the service's labels, in the source's order.\<close>

definition etypeOf :: "EndpointTypes \<Rightarrow> Service \<Rightarrow> EndpointType" where
  "etypeOf L svc =
     (if HasLabel svc (StrictLabel L) then StrictLabel L
      else if HasLabel svc (GroupStrictLabel L) then GroupStrictLabel L
      else if HasLabel svc (GroupLabel L) then GroupLabel L
      else RegularLabel L)"

text \<open>
  The outer loop, \<open>for i, svc := range services.Items\<close>. After the port loop the whole
  element \<open>endpoints[i]\<close> is assigned a struct literal that names \<open>ServiceName\<close>,
  \<open>Namespace\<close> and \<open>Type\<close> only, so its \<open>Port\<close> is the zero value.
\<close>

fun endpointsLoop ::
  "EndpointTypes \<Rightarrow> Service list \<Rightarrow> nat \<Rightarrow> Endpoint list \<Rightarrow> Endpoint list" where
  "endpointsLoop L [] i endpoints = endpoints"
| "endpointsLoop L (svc # items) i endpoints =
     (let etype = etypeOf L svc;
          endpoints1 = setGrpcPort (Ports svc) i endpoints;
          endpoints2 = endpoints1[i := \<lparr>ServiceName = Name svc, epNamespace = Namespace svc,
                                      Type = etype, Port = 0\<rparr>]
      in endpointsLoop L items (Suc i) endpoints2)"

section \<open>Subjects, options and target objects\<close>

text \<open>\<open>CommonThanosFields\<close>, embedded in both subjects' specs; the fields are pointers.\<close>

record CommonThanosFields =
  Image :: "string option"
  LogLevel :: "string option"
  LogFormat :: "string option"

text \<open>
  \<open>ThanosQuery\<close>: the metadata and the fields of the spec that the controller reads.
  \<open>StoreLabelSelector\<close> is a pointer to a label selector; \<open>Some m\<close> holds its
  \<open>MatchLabels\<close>.
\<close>

record ThanosQuery = ObjectMeta +
  qCommon :: CommonThanosFields
  Replicas :: "32 word"
  QuerierReplicaLabels :: "string list"
  StoreLabelSelector :: "(string \<rightharpoonup> string) option"

record ObjectStorageConfig =
  oscName :: string
  oscKey :: string

record IngestorHashringSpec =
  hrName :: string
  hrLabels :: "string \<rightharpoonup> string"
  hrExternalLabels :: "string \<rightharpoonup> string"
  hrReplicas :: "32 word"
  hrRetention :: "string option"
  hrStorageSize :: string
  hrTenants :: "string list"
  hrTenantMatcherType :: string
  hrObjectStorageConfig :: "ObjectStorageConfig option"

record ThanosReceive = ObjectMeta +
  rCommon :: CommonThanosFields
  ReplicationFactor :: "32 word"
  DefaultObjectStorageConfig :: ObjectStorageConfig
  Hashrings :: "IngestorHashringSpec list"

text \<open>\<open>manifests.Options\<close>, with the fields the controllers set.\<close>

record Options =
  optName :: string
  optNamespace :: string
  optReplicas :: "32 word"
  optLabels :: "string \<rightharpoonup> string"
  optImage :: "string option"
  optLogLevel :: "string option"
  optLogFormat :: "string option"

record QuerierOptions =
  qoOptions :: Options
  ReplicaLabels :: "string list"
  Timeout :: string
  LookbackDelta :: string
  MaxConcurrent :: int
  Endpoints :: "Endpoint list"

datatype Quantity = Quantity int

type_synonym SecretKeySelector = "string \<times> string"

record IngesterOptions =
  ioOptions :: Options
  Retention :: string
  StorageSize :: Quantity
  ObjStoreSecret :: SecretKeySelector
  ExternalLabels :: "string \<rightharpoonup> string"

text \<open>
  An endpoint of a \<open>discoveryv1.EndpointSlice\<close>: its addresses, its hostname and its three
  conditions; the hostname and the conditions are pointers.
\<close>

record SliceEndpoint =
  Addresses :: "string list"
  Hostname :: "string option"
  Ready :: "bool option"
  Serving :: "bool option"
  Terminating :: "bool option"

record EndpointSlice = ObjectMeta +
  SliceEndpoints :: "SliceEndpoint list"

text \<open>
  One row of the routing table, with the JSON names of its fields, and the routing table.
\<close>

record HashringEndpoint =
  address :: string
  az :: string

record HashringConfig =
  hashring :: string
  tenants :: "string list"
  tenant_matcher_type :: string
  endpoints :: "HashringEndpoint list"

type_synonym Hashrings = "HashringConfig list"

text \<open>
  The configuration artifact. \<open>Data\<close> is the value stored under \<open>HashringConfigKey\<close>,
  as the routing table it decodes to: \<open>None\<close> when the key is absent or empty,
  \<open>Some []\<close> for the document \<open>[]\<close>.
\<close>

record ConfigMap = ObjectMeta +
  Data :: "Hashrings option"

text \<open>Any other target object: its metadata, its kind and its rendered content.\<close>

record Manifest = ObjectMeta +
  Kind :: string
  Content :: "string list"

text \<open>
  \<open>client.Object\<close>: an interface value. A slice of them is a list of
  \<open>Object option\<close>, \<open>None\<close> being the nil interface.
\<close>

datatype Object = ConfigMapObject ConfigMap | ManifestObject Manifest

fun GetName :: "Object \<Rightarrow> string" where
  "GetName (ConfigMapObject cm) = Name cm"
| "GetName (ManifestObject m) = Name m"

fun GetNamespace :: "Object \<Rightarrow> string" where
  "GetNamespace (ConfigMapObject cm) = Namespace cm"
| "GetNamespace (ManifestObject m) = Namespace m"

fun SetNamespace :: "string \<Rightarrow> Object \<Rightarrow> Object" where
  "SetNamespace ns (ConfigMapObject cm) = ConfigMapObject (cm\<lparr>Namespace := ns\<rparr>)"
| "SetNamespace ns (ManifestObject m) = ManifestObject (m\<lparr>Namespace := ns\<rparr>)"

text \<open>\<open>obj.GetObjectKind().GroupVersionKind().String()\<close>.\<close>

fun gvkString :: "Object \<Rightarrow> string" where
  "gvkString (ConfigMapObject cm) = ''/v1, Kind=ConfigMap''"
| "gvkString (ManifestObject m) = Kind m"

section \<open>State and environment of a reconcile pass\<close>

text \<open>The counters and the gauge of the ingestion-tier reconciler.\<close>

record Metrics =
  reconciliationsTotal :: int
  reconciliationsFailedTotal :: int
  hashringsConfigured :: "string \<times> string \<rightharpoonup> int"
  endpointWatchesReconciliationsTotal :: int
  clientErrorsTotal :: int

text \<open>An event handed to the recorder: object, type, reason, message.\<close>

record Event =
  evObject :: NamespacedName
  evType :: string
  evReason :: string
  evMessage :: string

text \<open>A line handed to the logger: \<open>Info\<close> with its verbosity, or \<open>Error\<close> with its error.\<close>

datatype LogEntry =
    LogInfo nat string "(string \<times> string) list"
  | LogError Err string "(string \<times> string) list"

text \<open>
  Everything a pass can change: the cluster behind the client (of any type \<open>'c\<close>), the
  metrics, the recorded events and the log.
\<close>

record 'c State =
  cluster :: 'c
  metrics :: Metrics
  events :: "Event list"
  logs :: "LogEntry list"

type_synonym OperationResult = string

text \<open>The owner handed to \<open>SetControllerReference\<close>: kind, namespace, name.\<close>

type_synonym Owner = "string \<times> string \<times> string"

text \<open>
  What the controllers call and the sources at hand do not define. The first group is the
  Kubernetes client and controller-runtime: reads of the cluster, which may fail, and
  \<open>CreateOrUpdate\<close> (with the mutate function of \<open>manifests.MutateFuncFor\<close>), which
  returns the operation or an error and the cluster after the call. The second group is
  the manifests packages of this repository, whose builders decide the content of the
  target objects and nothing of the control flow.
\<close>

record 'c Env =
  GetThanosQuery :: "'c \<Rightarrow> NamespacedName \<Rightarrow> Err + ThanosQuery"
  GetThanosReceive :: "'c \<Rightarrow> NamespacedName \<Rightarrow> Err + ThanosReceive"
  GetConfigMap :: "'c \<Rightarrow> NamespacedName \<Rightarrow> Err + ConfigMap"
  ListServices :: "'c \<Rightarrow> (string \<rightharpoonup> string) \<Rightarrow> string \<Rightarrow> Err + Service list"
  ListEndpointSlices :: "'c \<Rightarrow> string \<Rightarrow> string \<Rightarrow> Err + EndpointSlice list"
  SetControllerReference :: "Owner \<Rightarrow> Object \<Rightarrow> Err + Object"
  CreateOrUpdate :: "'c \<Rightarrow> Object \<Rightarrow> (Err + OperationResult) \<times> 'c"
  MustParse :: "string \<Rightarrow> Quantity option"
  ToSecretKeySelector :: "ObjectStorageConfig \<Rightarrow> SecretKeySelector"
  IsNamespacedResource :: "Object \<Rightarrow> bool"
  ApplyDefaults :: "Options \<Rightarrow> Options"
  MergeLabels :: "(string \<rightharpoonup> string) \<Rightarrow> (string \<rightharpoonup> string) \<Rightarrow> (string \<rightharpoonup> string)"
  BuildQuerier :: "QuerierOptions \<Rightarrow> Object list"
  BuildIngesters :: "IngesterOptions list \<Rightarrow> Object list"
  endpointTypes :: EndpointTypes

text \<open>A Go call either returns or panics; the state reached is kept in both cases.\<close>

datatype 'a Go = Return 'a | Panic

definition logLine :: "LogEntry \<Rightarrow> 'c State \<Rightarrow> 'c State" where
  "logLine e st = st\<lparr>logs := logs st @ [e]\<rparr>"

section \<open>Query tier: building and applying the desired object set\<close>

text \<open>
  \<open>getStoreAPIServiceEndpoints\<close>. Reading \<open>MatchLabels\<close> through a nil
  \<open>StoreLabelSelector\<close> panics. A failed listing and an empty listing both return the
  empty slice.
\<close>

definition getStoreAPIServiceEndpoints :: "'c Env \<Rightarrow> 'c \<Rightarrow> ThanosQuery \<Rightarrow> Endpoint list Go" where
  "getStoreAPIServiceEndpoints env c query =
     (case StoreLabelSelector query of
        None \<Rightarrow> Panic
      | Some matchLabels \<Rightarrow>
          (case ListServices env c matchLabels (Namespace query) of
             Inl err \<Rightarrow> Return []
           | Inr items \<Rightarrow>
               if length items = 0 then Return []
               else Return (endpointsLoop (endpointTypes env) items 0
                              (replicate (length items) zeroEndpoint))))"

definition buildQuerier :: "'c Env \<Rightarrow> 'c \<Rightarrow> ThanosQuery \<Rightarrow> Object list Go" where
  "buildQuerier env c query =
     (let metaOpts = ApplyDefaults env
            \<lparr>optName = Name query, optNamespace = Namespace query,
             optReplicas = Replicas query, optLabels = Labels query,
             optImage = Image (qCommon query), optLogLevel = LogLevel (qCommon query),
             optLogFormat = LogFormat (qCommon query)\<rparr>
      in case getStoreAPIServiceEndpoints env c query of
           Panic \<Rightarrow> Panic
         | Return eps \<Rightarrow>
             Return (BuildQuerier env
               \<lparr>qoOptions = metaOpts, ReplicaLabels = QuerierReplicaLabels query,
                Timeout = ''15m'', LookbackDelta = ''5m'', MaxConcurrent = 20,
                Endpoints = eps\<rparr>))"

text \<open>
  The second half of the loop body of \<open>syncResources\<close>: \<open>ctrl.CreateOrUpdate\<close> and the
  log line of its outcome. The boolean says whether \<open>errCount\<close> is incremented.
\<close>

definition createOrUpdateObject :: "'c Env \<Rightarrow> Object \<Rightarrow> 'c State \<Rightarrow> bool \<times> 'c State" where
  "createOrUpdateObject env obj st =
     (case CreateOrUpdate env (cluster st) obj of
        (Inl err, c) \<Rightarrow>
          (True, logLine (LogError err ''failed to create or update resource''
                   [(''gvk'', gvkString obj), (''resource'', GetName obj),
                    (''namespace'', GetNamespace obj)]) (st\<lparr>cluster := c\<rparr>))
      | (Inr op, c) \<Rightarrow>
          (False, logLine (LogInfo 1 ''resource configured''
                   [(''operation'', op), (''gvk'', gvkString obj), (''resource'', GetName obj),
                    (''namespace'', GetNamespace obj)]) (st\<lparr>cluster := c\<rparr>)))"

text \<open>
  The loop body of \<open>syncResources\<close>, the same text in both controllers: a namespaced
  object gets the subject's namespace and the subject as controller owner; a failure
  there is logged and counted, and the loop continues with the next object.
\<close>

definition applyObject :: "'c Env \<Rightarrow> Owner \<Rightarrow> Object \<Rightarrow> 'c State \<Rightarrow> bool \<times> 'c State" where
  "applyObject env owner obj st =
     (if IsNamespacedResource env obj
      then (case SetControllerReference env owner (SetNamespace (fst (snd owner)) obj) of
              Inl err \<Rightarrow>
                (True, logLine (LogError err
                         ''failed to set controller owner reference to resource'' []) st)
            | Inr obj' \<Rightarrow> createOrUpdateObject env obj' st)
      else createOrUpdateObject env obj st)"

text \<open>
  \<open>for _, obj := range objs\<close> with the \<open>int32\<close> counter \<open>errCount\<close>. A nil object
  panics at its first method call.
\<close>

fun applyObjects ::
  "'c Env \<Rightarrow> Owner \<Rightarrow> Object option list \<Rightarrow> 32 word \<Rightarrow> 'c State \<Rightarrow> (32 word) Go \<times> 'c State" where
  "applyObjects env owner [] errCount st = (Return errCount, st)"
| "applyObjects env owner (None # objs) errCount st = (Panic, st)"
| "applyObjects env owner (Some obj # objs) errCount st =
     (case applyObject env owner obj st of
        (failed, st') \<Rightarrow>
          applyObjects env owner objs (if failed then errCount + 1 else errCount) st')"

definition ThanosQueryReconciler_syncResources ::
  "'c Env \<Rightarrow> ThanosQuery \<Rightarrow> 'c State \<Rightarrow> Err option Go \<times> 'c State" where
  "ThanosQueryReconciler_syncResources env query st =
     (case buildQuerier env (cluster st) query of
        Panic \<Rightarrow> (Panic, st)
      | Return desiredObjs \<Rightarrow>
          (case applyObjects env (''ThanosQuery'', Namespace query, Name query)
                  (map Some desiredObjs) 0 st of
             (Panic, st') \<Rightarrow> (Panic, st')
           | (Return errCount, st') \<Rightarrow>
               if 0 <s errCount
               then (Return (Some (Errorf
                       ''failed to create or update %d resources for the querier''
                       (sint errCount))), st')
               else (Return None, st')))"

definition ThanosQueryReconciler_Reconcile ::
  "'c Env \<Rightarrow> NamespacedName \<Rightarrow> 'c State \<Rightarrow> Err option Go \<times> 'c State" where
  "ThanosQueryReconciler_Reconcile env req st =
     (case GetThanosQuery env (cluster st) req of
        Inl err \<Rightarrow>
          if IsNotFound err
          then (Return None, logLine (LogInfo 0
                  ''thanos query resource not found. ignoring since object may be deleted''
                  []) st)
          else (Return (Some err), logLine (LogError err ''failed to get ThanosQuery'' []) st)
      | Inr query \<Rightarrow>
          (case ThanosQueryReconciler_syncResources env query st of
             (Return (Some err), st') \<Rightarrow> (Return (Some err), st')
           | (Return None, st') \<Rightarrow> (Return None, st')
           | (Panic, st') \<Rightarrow> (Panic, st')))"

section \<open>Ingestion tier: ingesters and the hashring configuration\<close>

text \<open>
  Modelled from the spec: \<open>receive.IngesterNameFromParent\<close> is not among the sources at
  hand. The spec (external interfaces, derived object names) gives the shard workload
  name as \<open><subject-name>-<shard-name>\<close>, and the controller test expects the name
  \<open>test-resource-test-hashring\<close> in the addresses of shard \<open>test-hashring\<close> of
  \<open>test-resource\<close>.
\<close>

definition IngesterNameFromParent :: "string \<Rightarrow> string \<Rightarrow> string" where
  "IngesterNameFromParent parent name = parent @ ''-'' @ name"

text \<open>
  The body of the loop of \<open>buildHashrings\<close>. Dereferencing a nil \<open>Retention\<close> panics,
  and so does \<open>resource.MustParse\<close> on a string that is no quantity.
\<close>

definition ingesterOptions :: "'c Env \<Rightarrow> ThanosReceive \<Rightarrow> IngestorHashringSpec \<Rightarrow> IngesterOptions Go" where
  "ingesterOptions env receiver hr =
     (let baseLabels = Labels receiver;
          baseSecret = ToSecretKeySelector env (DefaultObjectStorageConfig receiver);
          objStoreSecret = (case hrObjectStorageConfig hr of
                              None \<Rightarrow> baseSecret
                            | Some c \<Rightarrow> ToSecretKeySelector env c);
          metaOpts = ApplyDefaults env
            \<lparr>optName = IngesterNameFromParent (Name receiver) (hrName hr),
             optNamespace = Namespace receiver, optReplicas = hrReplicas hr,
             optLabels = MergeLabels env baseLabels (hrLabels hr),
             optImage = Image (rCommon receiver), optLogLevel = LogLevel (rCommon receiver),
             optLogFormat = LogFormat (rCommon receiver)\<rparr>
      in case hrRetention hr of
           None \<Rightarrow> Panic
         | Some retention \<Rightarrow>
             (case MustParse env (hrStorageSize hr) of
                None \<Rightarrow> Panic
              | Some quantity \<Rightarrow>
                  Return \<lparr>ioOptions = metaOpts, Retention = retention, StorageSize = quantity,
                          ObjStoreSecret = objStoreSecret,
                          ExternalLabels = hrExternalLabels hr\<rparr>))"

fun ingesterOptionsLoop ::
  "'c Env \<Rightarrow> ThanosReceive \<Rightarrow> IngestorHashringSpec list \<Rightarrow> IngesterOptions list
     \<Rightarrow> IngesterOptions list Go" where
  "ingesterOptionsLoop env receiver [] opts = Return opts"
| "ingesterOptionsLoop env receiver (hr # hrs) opts =
     (case ingesterOptions env receiver hr of
        Panic \<Rightarrow> Panic
      | Return opt \<Rightarrow> ingesterOptionsLoop env receiver hrs (opts @ [opt]))"

definition buildHashrings :: "'c Env \<Rightarrow> ThanosReceive \<Rightarrow> Object list Go" where
  "buildHashrings env receiver =
     (case ingesterOptionsLoop env receiver (Hashrings receiver) [] of
        Panic \<Rightarrow> Panic
      | Return opts \<Rightarrow> Return (BuildIngesters env opts))"

text \<open>\<open>receive.HashringMeta\<close> and \<open>receive.HashringOptions\<close>, as the controller fills them.
  \<open>HashringSettings\<close> is a Go map: an association list with one pair for each key.\<close>

record HashringMeta =
  DesiredReplicasReplicas :: "32 word"
  OriginalName :: string
  Tenants :: "string list"
  TenantMatcherType :: string
  AssociatedEndpointSlices :: "EndpointSlice list"
  Priority :: int

record HashringOptions =
  hoOptions :: Options
  DesiredReplicationFactor :: "32 word"
  HashringSettings :: "(string \<times> HashringMeta) list"

text \<open>
  The loop of \<open>buildHashringConfig\<close>: for the shard at index \<open>i\<close>, list the endpoint
  slices labelled with the shard's service name in the subject's namespace, and store
  the shard's metadata under that name. A failed listing ends the function with the
  wrapped error.
\<close>

fun hashringSettingsLoop ::
  "'c Env \<Rightarrow> 'c \<Rightarrow> ThanosReceive \<Rightarrow> nat \<Rightarrow> IngestorHashringSpec list
     \<Rightarrow> (string \<times> HashringMeta) list \<Rightarrow> Err + (string \<times> HashringMeta) list" where
  "hashringSettingsLoop env c receiver i [] settings = Inr settings"
| "hashringSettingsLoop env c receiver i (hr # hrs) settings =
     (let labelValue = IngesterNameFromParent (Name receiver) (hrName hr)
      in case ListEndpointSlices env c labelValue (Namespace receiver) of
           Inl err \<Rightarrow>
             Inl (ErrWrap (''failed to list endpoint slices for resource '' @ Name receiver) err)
         | Inr eps \<Rightarrow>
             hashringSettingsLoop env c receiver (Suc i) hrs
               (AList.update labelValue
                  \<lparr>DesiredReplicasReplicas = hrReplicas hr, OriginalName = hrName hr,
                   Tenants = hrTenants hr, TenantMatcherType = hrTenantMatcherType hr,
                   AssociatedEndpointSlices = eps,
                   Priority = int (length (Hashrings receiver)) - int i\<rparr>
                  settings))"

subsection \<open>The synthesizer\<close>

text \<open>
  \<open>receive.BuildHashrings\<close>, which turns the options into the configuration artifact,
  is not among the sources at hand. The five definitions of this subsection stand for
  it; each follows the spec's sections 4.2, 4.3 and 6.
\<close>

text \<open>
  Modelled from the spec: the filter of \<open>receive.BuildHashrings\<close> on the endpoints of a
  slice. Section 4.2 keeps only addresses flagged ready and serving and not
  terminating; a condition that is not set is not a flag.
\<close>

definition readyEndpoint :: "SliceEndpoint \<Rightarrow> bool" where
  "readyEndpoint ep =
     (Ready ep = Some True \<and> Serving ep = Some True \<and> Terminating ep \<noteq> Some True)"

text \<open>
  Modelled from the spec: the rendering of a kept address in \<open>receive.BuildHashrings\<close>.
  Section 4.2 gives the form \<open><hostname>.<identity>.<namespace>.svc.cluster.local:19291\<close>,
  and the controller test expects addresses of this form.
\<close>

definition fqdn :: "string \<Rightarrow> string \<Rightarrow> string \<Rightarrow> string" where
  "fqdn hostname identity namespace =
     hostname @ ''.'' @ identity @ ''.'' @ namespace @ ''.svc.cluster.local:19291''"

text \<open>
  Modelled from the spec: the resolved addresses of one shard in
  \<open>receive.BuildHashrings\<close>, over all its endpoint slices. They are sorted
  lexicographically (section 4.3) and hold no duplicate (section 8); an endpoint
  without hostname has nothing to render.
\<close>

definition readyAddresses :: "string \<Rightarrow> string \<Rightarrow> EndpointSlice list \<Rightarrow> string list" where
  "readyAddresses identity namespace slices =
     sort (remdups (concat (map (\<lambda>slice.
        List.map_filter (\<lambda>ep.
           if readyEndpoint ep
           then map_option (\<lambda>h. fqdn h identity namespace) (Hostname ep)
           else None) (SliceEndpoints slice)) slices)))"

text \<open>
  Modelled from the spec: the entry of one shard in \<open>receive.BuildHashrings\<close> (steps 1
  and 2 of section 4.3). It holds the resolved addresses when there are any; with none,
  the shard's entry of the existing artifact is preserved. A shard with no resolved
  address and no previous entry has no entry: this is the state in which the
  controller test finds the artifact equal to \<open>EmptyHashringConfig\<close> while the shard
  \<open>test-hashring\<close> is declared, and which section 6 calls the all-shards-empty state.
\<close>

definition hashringEntry ::
  "Hashrings \<Rightarrow> string \<Rightarrow> string \<times> HashringMeta \<Rightarrow> HashringConfig option" where
  "hashringEntry previous namespace kv =
     (let addrs = readyAddresses (fst kv) namespace (AssociatedEndpointSlices (snd kv))
      in if addrs = []
         then find (\<lambda>e. hashring e = OriginalName (snd kv)) previous
         else Some \<lparr>hashring = OriginalName (snd kv), tenants = Tenants (snd kv),
                    tenant_matcher_type = TenantMatcherType (snd kv),
                    endpoints = map (\<lambda>a. \<lparr>address = a, az = []\<rparr>) addrs\<rparr>)"

text \<open>
  Modelled from the spec: \<open>receive.BuildHashrings\<close> itself. The artifact is named after
  the subject (section 6). Its rows are the entries of the shards, sorted by shard name
  (step 3 of section 4.3), so that the order in which the map is traversed does not
  show; with an empty shard list the function returns the artifact with no rows
  together with \<open>ErrHashringsEmpty\<close> (step 4).
\<close>

definition BuildHashrings :: "ConfigMap \<Rightarrow> HashringOptions \<Rightarrow> Object option \<times> Err option" where
  "BuildHashrings preExistingState opts =
     (let previous = (case Data preExistingState of None \<Rightarrow> [] | Some hs \<Rightarrow> hs);
          cm = \<lparr>Name = optName (hoOptions opts), Namespace = optNamespace (hoOptions opts),
                Labels = optLabels (hoOptions opts), DeletionTimestamp = None,
                Finalizers = [], OwnerReferences = [], Data = Some []\<rparr>
      in if HashringSettings opts = []
         then (Some (ConfigMapObject cm), Some ErrHashringsEmpty)
         else (Some (ConfigMapObject (cm\<lparr>Data := Some (sort_key hashring
                  (List.map_filter (hashringEntry previous (optNamespace (hoOptions opts)))
                     (HashringSettings opts)))\<rparr>)), None))"

subsection \<open>The controller\<close>

text \<open>The zero value \<open>&corev1.ConfigMap{}\<close>, which a not-found \<open>Get\<close> leaves untouched.\<close>

definition emptyConfigMap :: ConfigMap where
  "emptyConfigMap = \<lparr>Name = [], Namespace = [], Labels = Map.empty, DeletionTimestamp = None,
                     Finalizers = [], OwnerReferences = [], Data = None\<rparr>"

text \<open>
  \<open>buildHashringConfig\<close> after the existing artifact \<open>cm\<close> has been read: the settings
  are collected, the gauge is set and the synthesizer runs.
\<close>

definition buildHashringConfigFrom ::
  "'c Env \<Rightarrow> ThanosReceive \<Rightarrow> ConfigMap \<Rightarrow> 'c State \<Rightarrow> (Object option \<times> Err option) \<times> 'c State" where
  "buildHashringConfigFrom env receiver cm st =
     (case hashringSettingsLoop env (cluster st) receiver 0 (Hashrings receiver) [] of
        Inl err \<Rightarrow> ((None, Some err), st)
      | Inr settings \<Rightarrow>
          (BuildHashrings cm
             \<lparr>hoOptions = \<lparr>optName = Name receiver, optNamespace = Namespace receiver,
                           optReplicas = 0, optLabels = Labels receiver,
                           optImage = None, optLogLevel = None, optLogFormat = None\<rparr>,
              DesiredReplicationFactor = ReplicationFactor receiver,
              HashringSettings = settings\<rparr>,
           st\<lparr>metrics := (metrics st)\<lparr>hashringsConfigured :=
                (hashringsConfigured (metrics st))
                  ((Name receiver, Namespace receiver) \<mapsto>
                     int (length (Hashrings receiver)))\<rparr>\<rparr>))"

text \<open>
  \<open>buildHashringConfig\<close>: the existing artifact is read first; not-found is no error and
  leaves the zero value.
\<close>

definition buildHashringConfig ::
  "'c Env \<Rightarrow> ThanosReceive \<Rightarrow> 'c State \<Rightarrow> (Object option \<times> Err option) \<times> 'c State" where
  "buildHashringConfig env receiver st =
     (case GetConfigMap env (cluster st) (Namespace receiver, Name receiver) of
        Inl err \<Rightarrow>
          if \<not> IsNotFound err
          then ((None, Some (ErrWrap (''failed to get config map for resource ''
                                      @ Name receiver) err)), st)
          else buildHashringConfigFrom env receiver emptyConfigMap st
      | Inr cm \<Rightarrow> buildHashringConfigFrom env receiver cm st)"

text \<open>
  \<open>syncResources\<close> of the ingestion tier. The ingesters are built first. An error of
  \<open>buildHashringConfig\<close> other than \<open>ErrHashringsEmpty\<close> ends the function; with the
  sentinel or with no error the returned object is appended and the loop runs.
\<close>

definition ThanosReceiveReconciler_syncResources ::
  "'c Env \<Rightarrow> ThanosReceive \<Rightarrow> 'c State \<Rightarrow> Err option Go \<times> 'c State" where
  "ThanosReceiveReconciler_syncResources env receiver st =
     (case buildHashrings env receiver of
        Panic \<Rightarrow> (Panic, st)
      | Return ingesters \<Rightarrow>
          (case buildHashringConfig env receiver st of
             ((hashringConf, err), st1) \<Rightarrow>
               if (case err of None \<Rightarrow> False | Some e \<Rightarrow> \<not> errorsIs e ErrHashringsEmpty)
               then (Return (map_option (ErrWrap ''failed to build hashring configuration'') err),
                     st1)
               else
                (case applyObjects env (''ThanosReceive'', Namespace receiver, Name receiver)
                        (map Some ingesters @ [hashringConf]) 0 st1 of
                   (Panic, st2) \<Rightarrow> (Panic, st2)
                 | (Return errCount, st2) \<Rightarrow>
                     if 0 <s errCount
                     then (Return (Some (Errorf
                             ''failed to create or update %d resources for the hashrings''
                             (sint errCount))),
                           st2\<lparr>metrics := (metrics st2)\<lparr>clientErrorsTotal :=
                                 clientErrorsTotal (metrics st2) + sint errCount\<rparr>\<rparr>)
                     else (Return None, st2))))"

definition receiveFinalizer :: string where
  "receiveFinalizer = ''monitoring.thanos.io/receive-finalizer''"

text \<open>\<open>controllerutil.ContainsFinalizer\<close>.\<close>

definition ContainsFinalizer :: "'a ObjectMeta_scheme \<Rightarrow> string \<Rightarrow> bool" where
  "ContainsFinalizer obj f = (f \<in> set (Finalizers obj))"

definition handleDeletionTimestamp ::
  "ThanosReceive \<Rightarrow> 'c State \<Rightarrow> Err option Go \<times> 'c State" where
  "handleDeletionTimestamp receiveHashring st =
     (if ContainsFinalizer receiveHashring receiveFinalizer
      then (Return None,
            (logLine (LogInfo 0
               ''performing Finalizer Operations for ThanosReceiveHashring before delete CR'' [])
               st)
            \<lparr>events := events st @
               [\<lparr>evObject = (Namespace receiveHashring, Name receiveHashring),
                 evType = ''Warning'', evReason = ''Deleting'',
                 evMessage = ''Custom Resource '' @ Name receiveHashring
                   @ '' is being deleted from the namespace '' @ Namespace receiveHashring\<rparr>]\<rparr>)
      else (Return None, st))"

definition incReconciliationsTotal :: "'c State \<Rightarrow> 'c State" where
  "incReconciliationsTotal st =
     st\<lparr>metrics := (metrics st)\<lparr>reconciliationsTotal := reconciliationsTotal (metrics st) + 1\<rparr>\<rparr>"

definition incReconciliationsFailedTotal :: "'c State \<Rightarrow> 'c State" where
  "incReconciliationsFailedTotal st =
     st\<lparr>metrics := (metrics st)\<lparr>reconciliationsFailedTotal :=
           reconciliationsFailedTotal (metrics st) + 1\<rparr>\<rparr>"

definition incClientErrorsTotal :: "'c State \<Rightarrow> 'c State" where
  "incClientErrorsTotal st =
     st\<lparr>metrics := (metrics st)\<lparr>clientErrorsTotal := clientErrorsTotal (metrics st) + 1\<rparr>\<rparr>"

definition ThanosReceiveReconciler_Reconcile ::
  "'c Env \<Rightarrow> NamespacedName \<Rightarrow> 'c State \<Rightarrow> Err option Go \<times> 'c State" where
  "ThanosReceiveReconciler_Reconcile env req st0 =
     (let st = incReconciliationsTotal st0
      in case GetThanosReceive env (cluster st) req of
           Inl err \<Rightarrow>
             if IsNotFound err
             then (Return None, logLine (LogInfo 0
                     ''thanos receive resource not found. ignoring since object may be deleted''
                     []) (incClientErrorsTotal st))
             else (Return (Some err),
                   incReconciliationsFailedTotal
                     (logLine (LogError err ''failed to get ThanosReceive'' [])
                        (incClientErrorsTotal st)))
         | Inr receiver \<Rightarrow>
             if \<not> IsZero (DeletionTimestamp receiver)
             then handleDeletionTimestamp receiver st
             else (case ThanosReceiveReconciler_syncResources env receiver st of
                     (Return (Some err), st') \<Rightarrow>
                       (Return (Some err), incReconciliationsFailedTotal st')
                   | (Return None, st') \<Rightarrow> (Return None, st')
                   | (Panic, st') \<Rightarrow> (Panic, st')))"

section \<open>Query tier: discovery arguments\<close>

text \<open>
  \<open>manifestquery.BuildQuerier\<close>, which renders the endpoints into the arguments of the
  query workload, is not among the sources at hand. The three definitions of this
  section stand for its rendering of the endpoints.
\<close>

text \<open>
  Modelled from the spec: the flag of an endpoint in \<open>manifestquery.BuildQuerier\<close>.
  Section 4.4 selects the variant of \<open>--endpoint[-group][-strict]\<close> from the endpoint's
  strictness class; the controller test expects \<open>--endpoint\<close> for a service without
  strictness label and \<open>--endpoint-strict\<close> for one with the strict label.
\<close>

definition endpointFlag :: "EndpointTypes \<Rightarrow> EndpointType \<Rightarrow> string" where
  "endpointFlag L t =
     (if t = StrictLabel L then ''--endpoint-strict''
      else if t = GroupStrictLabel L then ''--endpoint-group-strict''
      else if t = GroupLabel L then ''--endpoint-group''
      else ''--endpoint'')"

text \<open>
  Modelled from the spec: the discovery argument of an endpoint in
  \<open>manifestquery.BuildQuerier\<close>. Sections 4.4 and 6 value each flag
  \<open>dnssrv+_grpc._tcp.<service>.<namespace>.svc.cluster.local\<close>.
\<close>

definition endpointArg :: "EndpointTypes \<Rightarrow> Endpoint \<Rightarrow> string" where
  "endpointArg L ep =
     endpointFlag L (Type ep) @ ''=dnssrv+_grpc._tcp.'' @ ServiceName ep @ ''.''
       @ epNamespace ep @ ''.svc.cluster.local''"

text \<open>
  Modelled from the spec: the discovery arguments of \<open>manifestquery.BuildQuerier\<close>.
  Section 4.4 emits one argument for each endpoint, in the order of the observed
  services.
\<close>

definition endpointArgs :: "EndpointTypes \<Rightarrow> Endpoint list \<Rightarrow> string list" where
  "endpointArgs L eps = map (endpointArg L) eps"

section \<open>What a pass of the ingestion tier observes\<close>

text \<open>
  Names for the three observations the properties of the synthesizer speak of: the
  endpoint slices listed for a shard (none when the listing fails), the addresses
  resolved from them, and the rows of the existing artifact (none when there is no
  artifact or no routing table in it).
\<close>

definition observedSlices :: "'c Env \<Rightarrow> 'c \<Rightarrow> ThanosReceive \<Rightarrow> string \<Rightarrow> EndpointSlice list" where
  "observedSlices env c receiver shard =
     (case ListEndpointSlices env c (IngesterNameFromParent (Name receiver) shard)
             (Namespace receiver) of
        Inl err \<Rightarrow> []
      | Inr slices \<Rightarrow> slices)"

definition resolvedAddresses :: "'c Env \<Rightarrow> 'c \<Rightarrow> ThanosReceive \<Rightarrow> string \<Rightarrow> string list" where
  "resolvedAddresses env c receiver shard =
     readyAddresses (IngesterNameFromParent (Name receiver) shard) (Namespace receiver)
       (observedSlices env c receiver shard)"

definition previousHashrings :: "'c Env \<Rightarrow> 'c \<Rightarrow> ThanosReceive \<Rightarrow> Hashrings" where
  "previousHashrings env c receiver =
     (case GetConfigMap env c (Namespace receiver, Name receiver) of
        Inl err \<Rightarrow> []
      | Inr cm \<Rightarrow> (case Data cm of None \<Rightarrow> [] | Some hs \<Rightarrow> hs))"

section \<open>Best-effort application, as the spec words it\<close>


section \<open>Concrete inputs\<close>

text \<open>
  A small cluster for evaluating the model: the cluster is the list of the objects
  written so far, every write succeeds and every read finds nothing, unless an example
  below changes a field.
\<close>

definition exTypes :: EndpointTypes where
  "exTypes = \<lparr>RegularLabel = ''endpoint'', StrictLabel = ''endpoint-strict'',
              GroupLabel = ''endpoint-group'', GroupStrictLabel = ''endpoint-group-strict''\<rparr>"

definition exManifest :: "string \<Rightarrow> string \<Rightarrow> string \<Rightarrow> string list \<Rightarrow> Object" where
  "exManifest kind ns name content =
     ManifestObject \<lparr>Name = name, Namespace = ns, Labels = Map.empty,
                     DeletionTimestamp = None, Finalizers = [], OwnerReferences = [],
                     Kind = kind, Content = content\<rparr>"

definition exEnv :: "Object list Env" where
  "exEnv = \<lparr>GetThanosQuery = (\<lambda>c k. Inl ErrNotFound),
            GetThanosReceive = (\<lambda>c k. Inl ErrNotFound),
            GetConfigMap = (\<lambda>c k. Inl ErrNotFound),
            ListServices = (\<lambda>c m ns. Inr []),
            ListEndpointSlices = (\<lambda>c l ns. Inr []),
            SetControllerReference = (\<lambda>owner obj. Inr obj),
            CreateOrUpdate = (\<lambda>c obj. if gvkString obj = ''Service''
                                        then (Inl (ErrApi ''conflict''), c)
                                        else (Inr ''created'', c @ [obj])),
            MustParse = (\<lambda>s. Some (Quantity 0)),
            ToSecretKeySelector = (\<lambda>c. (oscName c, oscKey c)),
            IsNamespacedResource = (\<lambda>obj. True),
            ApplyDefaults = (\<lambda>opts. opts),
            MergeLabels = (\<lambda>a b. a ++ b),
            BuildQuerier = (\<lambda>opts.
              [exManifest ''Service'' (optNamespace (qoOptions opts)) (optName (qoOptions opts)) [],
               exManifest ''Deployment'' (optNamespace (qoOptions opts)) (optName (qoOptions opts))
                 (endpointArgs exTypes (Endpoints opts))]),
            BuildIngesters = map (\<lambda>opts.
               exManifest ''StatefulSet'' (optNamespace (ioOptions opts))
                 (optName (ioOptions opts)) []),
            endpointTypes = exTypes\<rparr>"

definition exState :: "Object list State" where
  "exState = \<lparr>cluster = [],
              metrics = \<lparr>reconciliationsTotal = 0, reconciliationsFailedTotal = 0,
                         hashringsConfigured = Map.empty,
                         endpointWatchesReconciliationsTotal = 0, clientErrorsTotal = 0\<rparr>,
              events = [], logs = []\<rparr>"

text \<open>The store service of the controller test, and one that carries every strictness label.\<close>

definition exStore :: Service where
  "exStore = \<lparr>Name = ''thanos-receive'', Namespace = ''default'',
              Labels = [''store-api'' \<mapsto> ''true''], DeletionTimestamp = None,
              Finalizers = [], OwnerReferences = [],
              Ports = [\<lparr>spName = ''grpc'', spPort = 10901\<rparr>]\<rparr>"

definition exStrictStore :: Service where
  "exStrictStore = \<lparr>Name = ''my-store'', Namespace = ''ns'',
              Labels = [''endpoint-group'' \<mapsto> ''true'', ''endpoint-strict'' \<mapsto> ''true''],
              DeletionTimestamp = None, Finalizers = [], OwnerReferences = [],
              Ports = [\<lparr>spName = ''grpc'', spPort = 10901\<rparr>]\<rparr>"

definition exQuery :: ThanosQuery where
  "exQuery = \<lparr>Name = ''test-resource'', Namespace = ''default'', Labels = Map.empty,
              DeletionTimestamp = None, Finalizers = [], OwnerReferences = [],
              qCommon = \<lparr>Image = None, LogLevel = None, LogFormat = None\<rparr>,
              Replicas = 3, QuerierReplicaLabels = [''replica''],
              StoreLabelSelector = Some [''store-api'' \<mapsto> ''true'']\<rparr>"

definition exQueryEnv :: "Object list Env" where
  "exQueryEnv = exEnv\<lparr>GetThanosQuery := (\<lambda>c k. Inr exQuery),
                      ListServices := (\<lambda>c m ns. Inr [exStore])\<rparr>"

definition exStrictEnv :: "Object list Env" where
  "exStrictEnv = exEnv\<lparr>ListServices := (\<lambda>c m ns. Inr [exStrictStore])\<rparr>"

definition exDeletingQuery :: ThanosQuery where
  "exDeletingQuery = exQuery\<lparr>DeletionTimestamp := Some 1\<rparr>"

definition exDeletingQueryEnv :: "Object list Env" where
  "exDeletingQueryEnv = exEnv\<lparr>GetThanosQuery := (\<lambda>c k. Inr exDeletingQuery),
                              CreateOrUpdate := (\<lambda>c obj. (Inr ''created'', c @ [obj]))\<rparr>"

text \<open>The subject of the ingestion-tier controller test and its endpoint slice.\<close>

definition exHashring :: IngestorHashringSpec where
  "exHashring = \<lparr>hrName = ''test-hashring'', hrLabels = [''test'' \<mapsto> ''my-ingester-test''],
                 hrExternalLabels = Map.empty, hrReplicas = 3, hrRetention = Some ''2h'',
                 hrStorageSize = ''100Mi'', hrTenants = [''test-tenant''],
                 hrTenantMatcherType = ''exact'', hrObjectStorageConfig = None\<rparr>"

definition exReceive :: ThanosReceive where
  "exReceive = \<lparr>Name = ''test-resource'', Namespace = ''treceive'', Labels = Map.empty,
                DeletionTimestamp = None, Finalizers = [], OwnerReferences = [],
                rCommon = \<lparr>Image = None, LogLevel = None, LogFormat = None\<rparr>,
                ReplicationFactor = 3,
                DefaultObjectStorageConfig = \<lparr>oscName = ''test-secret'', oscKey = ''test-key''\<rparr>,
                Hashrings = [exHashring]\<rparr>"

definition exSliceEndpoint :: "string \<Rightarrow> string \<Rightarrow> SliceEndpoint" where
  "exSliceEndpoint addr host =
     \<lparr>Addresses = [addr], Hostname = Some host, Ready = Some True, Serving = Some True,
      Terminating = Some False\<rparr>"

definition exSlice :: EndpointSlice where
  "exSlice = \<lparr>Name = ''test-ep-slice-2'', Namespace = ''treceive'', Labels = Map.empty,
              DeletionTimestamp = None, Finalizers = [],
              OwnerReferences = [(''Service'', ''test-resource-test-hashring'')],
              SliceEndpoints = [exSliceEndpoint ''8.8.8.8'' ''some-hostname'',
                                exSliceEndpoint ''1.1.1.1'' ''some-hostname-b'',
                                exSliceEndpoint ''2.2.2.2'' ''some-hostname-c'']\<rparr>"

definition exReceiveEnv :: "Object list Env" where
  "exReceiveEnv = exEnv\<lparr>GetThanosReceive := (\<lambda>c k. Inr exReceive)\<rparr>"

definition exReadyEnv :: "Object list Env" where
  "exReadyEnv = exEnv\<lparr>ListEndpointSlices := (\<lambda>c l ns.
       if l = ''test-resource-test-hashring'' \<and> ns = ''treceive'' then Inr [exSlice]
       else Inr [])\<rparr>"

text \<open>An artifact of an earlier pass, holding one address of the shard.\<close>

definition exOldEntry :: HashringConfig where
  "exOldEntry = \<lparr>hashring = ''test-hashring'', tenants = [''test-tenant''],
                 tenant_matcher_type = ''exact'',
                 endpoints = [\<lparr>address = ''old.test-resource-test-hashring.treceive.svc.cluster.local:19291'',
                              az = []\<rparr>]\<rparr>"

definition exOldArtifact :: ConfigMap where
  "exOldArtifact = \<lparr>Name = ''test-resource'', Namespace = ''treceive'', Labels = Map.empty,
                    DeletionTimestamp = None, Finalizers = [], OwnerReferences = [],
                    Data = Some [exOldEntry]\<rparr>"

definition exPreservedEnv :: "Object list Env" where
  "exPreservedEnv = exEnv\<lparr>GetConfigMap := (\<lambda>c k. Inr exOldArtifact)\<rparr>"

definition exFailingEnv :: "Object list Env" where
  "exFailingEnv = exEnv\<lparr>GetThanosReceive := (\<lambda>c k. Inr exReceive),
                        GetConfigMap := (\<lambda>c k. Inl (ErrApi ''timeout''))\<rparr>"

definition exListFailingEnv :: "Object list Env" where
  "exListFailingEnv = exEnv\<lparr>GetThanosReceive := (\<lambda>c k. Inr exReceive),
                            ListEndpointSlices := (\<lambda>c l ns. Inl (ErrApi ''timeout''))\<rparr>"

text \<open>A subject with two shards, declared out of order, both with ready endpoints.\<close>

definition exTwoReceive :: ThanosReceive where
  "exTwoReceive = exReceive\<lparr>Hashrings := [exHashring, exHashring\<lparr>hrName := ''another''\<rparr>]\<rparr>"

definition exAllReadyEnv :: "Object list Env" where
  "exAllReadyEnv = exEnv\<lparr>ListEndpointSlices := (\<lambda>c l ns. Inr [exSlice])\<rparr>"

definition exDeletingReceive :: ThanosReceive where
  "exDeletingReceive = exReceive\<lparr>DeletionTimestamp := Some 1, Finalizers := [receiveFinalizer]\<rparr>"

definition exDeletingReceiveEnv :: "Object list Env" where
  "exDeletingReceiveEnv = exEnv\<lparr>GetThanosReceive := (\<lambda>c k. Inr exDeletingReceive)\<rparr>"

definition exEmptyReceive :: ThanosReceive where
  "exEmptyReceive = exReceive\<lparr>Hashrings := []\<rparr>"

text \<open>The subject without shards, behind a client whose read of the artifact times out.\<close>

definition exEmptyFailingEnv :: "Object list Env" where
  "exEmptyFailingEnv = exEnv\<lparr>GetThanosReceive := (\<lambda>c k. Inr exEmptyReceive),
                             GetConfigMap := (\<lambda>c k. Inl (ErrApi ''timeout''))\<rparr>"

text \<open>The desired object sets of the two example subjects, and the artifact with given rows.\<close>

definition exQueryObjects :: "Object list" where
  "exQueryObjects =
     [exManifest ''Service'' ''default'' ''test-resource'' [],
      exManifest ''Deployment'' ''default'' ''test-resource''
        [''--endpoint=dnssrv+_grpc._tcp.thanos-receive.default.svc.cluster.local'']]"

definition exIngesters :: "Object list" where
  "exIngesters = [exManifest ''StatefulSet'' ''treceive'' ''test-resource-test-hashring'' []]"

definition exArtifact :: "Hashrings \<Rightarrow> ConfigMap" where
  "exArtifact rows = \<lparr>Name = ''test-resource'', Namespace = ''treceive'', Labels = Map.empty,
                      DeletionTimestamp = None, Finalizers = [], OwnerReferences = [],
                      Data = Some rows\<rparr>"

text \<open>The example state after a pass that set the gauge of the example subject to \<open>n\<close>.\<close>

definition exGauged :: "int \<Rightarrow> Object list State" where
  "exGauged n = exState\<lparr>metrics := (metrics exState)\<lparr>hashringsConfigured :=
                   [(''test-resource'', ''treceive'') \<mapsto> n]\<rparr>\<rparr>"

section \<open>Properties\<close>

subsection \<open>The endpoint observer\<close>

lemma setGrpcPort_cases:
  "setGrpcPort ports i eps = eps \<or>
   (\<exists>p. setGrpcPort ports i eps = eps[i := (eps ! i)\<lparr>Port := p\<rparr>])"
  by (induction ports) auto

lemma length_setGrpcPort [simp]: "length (setGrpcPort ports i eps) = length eps"
  using setGrpcPort_cases [of ports i eps] by auto

lemma take_setGrpcPort [simp]: "take i (setGrpcPort ports i eps) = take i eps"
  using setGrpcPort_cases [of ports i eps] by auto

lemma drop_setGrpcPort [simp]: "drop (Suc i) (setGrpcPort ports i eps) = drop (Suc i) eps"
  using setGrpcPort_cases [of ports i eps] by auto

text \<open>
  What the outer loop leaves in the slice: the elements from \<open>i\<close> on are the struct
  literals of the services, whatever the port loop wrote before.
\<close>

lemma endpointsLoop_eq:
  "i + length items \<le> length eps \<Longrightarrow>
   endpointsLoop L items i eps =
     take i eps
     @ map (\<lambda>svc. \<lparr>ServiceName = Name svc, epNamespace = Namespace svc,
                   Type = etypeOf L svc, Port = 0\<rparr>) items
     @ drop (i + length items) eps"
proof (induction items arbitrary: i eps)
  case Nil
  then show ?case by simp
next
  case (Cons svc items)
  let ?e = "\<lparr>ServiceName = Name svc, epNamespace = Namespace svc,
             Type = etypeOf L svc, Port = 0\<rparr>"
  let ?eps = "(setGrpcPort (Ports svc) i eps)[i := ?e]"
  from Cons.prems have i: "i < length eps" by simp
  have len: "Suc i + length items \<le> length ?eps" using Cons.prems by simp
  have t: "take (Suc i) ?eps = take i eps @ [?e]"
    using i by (simp add: take_Suc_conv_app_nth)
  have d: "drop (Suc i + length items) ?eps = drop (Suc i + length items) eps"
    by (metis add_Suc drop_drop drop_setGrpcPort drop_update_cancel lessI add.commute)
  show ?case
    using Cons.IH [OF len] t d by (simp add: Let_def)
qed

lemma endpointsLoop_all:
  "endpointsLoop L items 0 (replicate (length items) zeroEndpoint) =
     map (\<lambda>svc. \<lparr>ServiceName = Name svc, epNamespace = Namespace svc,
                   Type = etypeOf L svc, Port = 0\<rparr>) items"
  using endpointsLoop_eq [of 0 items "replicate (length items) zeroEndpoint" L] by simp

lemma getStoreAPIServiceEndpoints_listed:
  assumes "StoreLabelSelector query = Some sel"
    and "ListServices env c sel (Namespace query) = Inr items"
  shows "getStoreAPIServiceEndpoints env c query =
     Return (map (\<lambda>svc. \<lparr>ServiceName = Name svc, epNamespace = Namespace svc,
                          Type = etypeOf (endpointTypes env) svc, Port = 0\<rparr>) items)"
  using assms by (simp add: getStoreAPIServiceEndpoints_def endpointsLoop_all)

text \<open>Every endpoint the observer returns has port 0, whatever the ports of its service.\<close>

lemma getStoreAPIServiceEndpoints_Port:
  assumes "getStoreAPIServiceEndpoints env c query = Return eps"
  shows "\<forall>ep \<in> set eps. Port ep = 0"
proof (cases "StoreLabelSelector query")
  case None
  with assms show ?thesis by (simp add: getStoreAPIServiceEndpoints_def)
next
  case (Some sel)
  show ?thesis
  proof (cases "ListServices env c sel (Namespace query)")
    case (Inl err)
    with Some assms show ?thesis by (simp add: getStoreAPIServiceEndpoints_def)
  next
    case (Inr items)
    from getStoreAPIServiceEndpoints_listed [OF Some Inr] assms show ?thesis by auto
  qed
qed

text \<open>
  C5. The observer is run on the store service of the controller test, which has a port
  named \<open>grpc\<close> with number 10901. The claim has this port recorded on the returned
  endpoint; the returned endpoint has port 0, since the element is overwritten by a
  struct literal without \<open>Port\<close> after the port loop has written to it.
\<close>

theorem C5_grpc_port_not_recorded:
  "Ports exStore = [\<lparr>spName = ''grpc'', spPort = 10901\<rparr>]
   \<and> ListServices exQueryEnv [] [''store-api'' \<mapsto> ''true''] ''default'' = Inr [exStore]
   \<and> getStoreAPIServiceEndpoints exQueryEnv [] exQuery =
       Return [\<lparr>ServiceName = ''thanos-receive'', epNamespace = ''default'',
                Type = RegularLabel exTypes, Port = 0\<rparr>]"
  by (simp add: getStoreAPIServiceEndpoints_def exQueryEnv_def exEnv_def exQuery_def
      exStore_def exTypes_def zeroEndpoint_def etypeOf_def HasLabel_def)



subsection \<open>The applier loop\<close>













subsection \<open>The model on the concrete inputs\<close>

lemmas ex_env_defs = exEnv_def exQueryEnv_def exStrictEnv_def exDeletingQueryEnv_def
  exReceiveEnv_def exReadyEnv_def exPreservedEnv_def exFailingEnv_def exDeletingReceiveEnv_def
  exListFailingEnv_def exAllReadyEnv_def exEmptyFailingEnv_def

lemmas ex_data_defs = exState_def exTypes_def exManifest_def exStore_def exStrictStore_def
  exQuery_def exHashring_def exReceive_def exSliceEndpoint_def exSlice_def exOldEntry_def
  exOldArtifact_def exQueryObjects_def exIngesters_def exArtifact_def exGauged_def
  exDeletingQuery_def exDeletingReceive_def exEmptyReceive_def exTwoReceive_def




lemma ex_buildHashringConfig:
  "buildHashringConfig exReceiveEnv exReceive exState
     = ((Some (ConfigMapObject (exArtifact [])), None), exGauged 1)"
  by (simp add: buildHashringConfig_def buildHashringConfigFrom_def BuildHashrings_def
      hashringEntry_def readyAddresses_def IngesterNameFromParent_def emptyConfigMap_def
      List.map_filter_simps ex_env_defs ex_data_defs)



subsection \<open>Subjects that are absent or being deleted\<close>

text \<open>
  C8, as stated, at a concrete input. The key names no \<open>ThanosReceive\<close>; the pass of the
  ingestion tier returns success, and it has incremented two counters on the way, which
  the spec (section 4.1) lists among the side effects of a pass.
\<close>

theorem C8_not_found_counterexample:
  "GetThanosReceive exEnv (cluster exState) (''treceive'', ''test-resource'') = Inl ErrNotFound
   \<and> IsNotFound ErrNotFound
   \<and> fst (ThanosReceiveReconciler_Reconcile exEnv (''treceive'', ''test-resource'') exState)
       = Return None
   \<and> snd (ThanosReceiveReconciler_Reconcile exEnv (''treceive'', ''test-resource'') exState)
       \<noteq> exState
   \<and> reconciliationsTotal (metrics exState) = 0
   \<and> clientErrorsTotal (metrics exState) = 0
   \<and> reconciliationsTotal (metrics (snd (ThanosReceiveReconciler_Reconcile exEnv
          (''treceive'', ''test-resource'') exState))) = 1
   \<and> clientErrorsTotal (metrics (snd (ThanosReceiveReconciler_Reconcile exEnv
          (''treceive'', ''test-resource'') exState))) = 1"
  by (simp add: ThanosReceiveReconciler_Reconcile_def incReconciliationsTotal_def
      incClientErrorsTotal_def logLine_def exEnv_def exState_def)

text \<open>
  C8, amended. When the fetch of the subject fails with not-found, both tiers return
  success without reading or writing anything else: the cluster and the recorded events
  are unchanged. The state after the pass is the state before it with one informational
  line added to the log and, in the ingestion tier, the counters of reconciliations and
  of client errors incremented by one.
\<close>

theorem C8_not_found_subject:
  assumes "IsNotFound err"
  shows "(GetThanosQuery env (cluster st) req = Inl err \<longrightarrow>
            ThanosQueryReconciler_Reconcile env req st =
              (Return None,
               st\<lparr>logs := logs st @ [LogInfo 0
                  ''thanos query resource not found. ignoring since object may be deleted''
                  []]\<rparr>))
     \<and> (GetThanosReceive env (cluster st) req = Inl err \<longrightarrow>
            ThanosReceiveReconciler_Reconcile env req st =
              (Return None,
               st\<lparr>metrics := (metrics st)
                     \<lparr>reconciliationsTotal := reconciliationsTotal (metrics st) + 1,
                      clientErrorsTotal := clientErrorsTotal (metrics st) + 1\<rparr>,
                  logs := logs st @ [LogInfo 0
                  ''thanos receive resource not found. ignoring since object may be deleted''
                  []]\<rparr>))"
  using assms
  by (simp add: ThanosQueryReconciler_Reconcile_def ThanosReceiveReconciler_Reconcile_def
      incReconciliationsTotal_def incClientErrorsTotal_def logLine_def)

theorem C8_not_found_subject_witness:
  "IsNotFound ErrNotFound
   \<and> GetThanosQuery exEnv (cluster exState) (''default'', ''test-resource'') = Inl ErrNotFound
   \<and> GetThanosReceive exEnv (cluster exState) (''treceive'', ''test-resource'') = Inl ErrNotFound
   \<and> fst (ThanosQueryReconciler_Reconcile exEnv (''default'', ''test-resource'') exState)
       = Return None
   \<and> cluster (snd (ThanosQueryReconciler_Reconcile exEnv (''default'', ''test-resource'')
         exState)) = []
   \<and> events (snd (ThanosQueryReconciler_Reconcile exEnv (''default'', ''test-resource'')
         exState)) = []
   \<and> fst (ThanosReceiveReconciler_Reconcile exEnv (''treceive'', ''test-resource'') exState)
       = Return None
   \<and> cluster (snd (ThanosReceiveReconciler_Reconcile exEnv (''treceive'', ''test-resource'')
         exState)) = []
   \<and> events (snd (ThanosReceiveReconciler_Reconcile exEnv (''treceive'', ''test-resource'')
         exState)) = []"
proof -
  have nf: "IsNotFound ErrNotFound" by simp
  have gq: "GetThanosQuery exEnv (cluster exState) (''default'', ''test-resource'')
      = Inl ErrNotFound"
    by (simp add: exEnv_def)
  have gr: "GetThanosReceive exEnv (cluster exState) (''treceive'', ''test-resource'')
      = Inl ErrNotFound"
    by (simp add: exEnv_def)
  have empty: "cluster exState = []" "events exState = []"
    by (simp_all add: exState_def)
  from C8_not_found_subject [OF nf, of exEnv exState "(''default'', ''test-resource'')"] gq
  have q: "ThanosQueryReconciler_Reconcile exEnv (''default'', ''test-resource'') exState =
      (Return None,
       exState\<lparr>logs := logs exState @ [LogInfo 0
          ''thanos query resource not found. ignoring since object may be deleted'' []]\<rparr>)"
    by blast
  from C8_not_found_subject [OF nf, of exEnv exState "(''treceive'', ''test-resource'')"] gr
  have r: "ThanosReceiveReconciler_Reconcile exEnv (''treceive'', ''test-resource'') exState =
      (Return None,
       exState\<lparr>metrics := (metrics exState)
             \<lparr>reconciliationsTotal := reconciliationsTotal (metrics exState) + 1,
              clientErrorsTotal := clientErrorsTotal (metrics exState) + 1\<rparr>,
          logs := logs exState @ [LogInfo 0
          ''thanos receive resource not found. ignoring since object may be deleted'' []]\<rparr>)"
    by blast
  show ?thesis
    unfolding q r using nf gq gr empty by simp
qed

text \<open>
  C9, as stated, at a concrete input. The subject is a \<open>ThanosQuery\<close> whose deletion
  timestamp is set. The query tier has no branch for it: the pass builds the desired
  object set and applies it, and the cluster holds the two objects afterwards.
\<close>

theorem C9_deletion_counterexample:
  "GetThanosQuery exDeletingQueryEnv (cluster exState) (''default'', ''test-resource'')
     = Inr exDeletingQuery
   \<and> \<not> IsZero (DeletionTimestamp exDeletingQuery)
   \<and> cluster exState = []
   \<and> ThanosQueryReconciler_Reconcile exDeletingQueryEnv (''default'', ''test-resource'') exState
     = (Return None,
        exState\<lparr>cluster := [exManifest ''Service'' ''default'' ''test-resource'' [],
                              exManifest ''Deployment'' ''default'' ''test-resource'' []],
                 logs := [LogInfo 1 ''resource configured''
                            [(''operation'', ''created''), (''gvk'', ''Service''),
                             (''resource'', ''test-resource''), (''namespace'', ''default'')],
                          LogInfo 1 ''resource configured''
                            [(''operation'', ''created''), (''gvk'', ''Deployment''),
                             (''resource'', ''test-resource''), (''namespace'', ''default'')]]\<rparr>)"
  by (simp add: ThanosQueryReconciler_Reconcile_def ThanosQueryReconciler_syncResources_def
      buildQuerier_def getStoreAPIServiceEndpoints_def applyObject_def
      createOrUpdateObject_def logLine_def IsZero_def endpointArgs_def
      exDeletingQueryEnv_def exEnv_def exDeletingQuery_def exQuery_def exState_def
      exManifest_def word_sless_alt)

text \<open>
  C9, amended to the ingestion tier. When the fetched \<open>ThanosReceive\<close> has its deletion
  timestamp set, the pass returns success after the finalizer path alone: with the
  finalizer present it logs one line and records the deletion notice, without it
  it does neither. The cluster is unchanged, the log has no line of the applier, and
  of the metrics only the counter of reconciliations has moved (the gauge, which
  building the hashring configuration sets, has not).
\<close>

theorem C9_deletion_ingestion_tier:
  assumes "GetThanosReceive env (cluster st) req = Inr receiver"
    and "\<not> IsZero (DeletionTimestamp receiver)"
  shows "fst (ThanosReceiveReconciler_Reconcile env req st) = Return None
     \<and> cluster (snd (ThanosReceiveReconciler_Reconcile env req st)) = cluster st
     \<and> metrics (snd (ThanosReceiveReconciler_Reconcile env req st)) =
         (metrics st)\<lparr>reconciliationsTotal := reconciliationsTotal (metrics st) + 1\<rparr>
     \<and> (ContainsFinalizer receiver receiveFinalizer \<longrightarrow>
          events (snd (ThanosReceiveReconciler_Reconcile env req st)) =
            events st @ [\<lparr>evObject = (Namespace receiver, Name receiver),
                           evType = ''Warning'', evReason = ''Deleting'',
                           evMessage = ''Custom Resource '' @ Name receiver
                             @ '' is being deleted from the namespace ''
                             @ Namespace receiver\<rparr>]
        \<and> logs (snd (ThanosReceiveReconciler_Reconcile env req st)) =
            logs st @ [LogInfo 0
              ''performing Finalizer Operations for ThanosReceiveHashring before delete CR''
              []])
     \<and> (\<not> ContainsFinalizer receiver receiveFinalizer \<longrightarrow>
          events (snd (ThanosReceiveReconciler_Reconcile env req st)) = events st
        \<and> logs (snd (ThanosReceiveReconciler_Reconcile env req st)) = logs st)"
  using assms
  by (simp add: ThanosReceiveReconciler_Reconcile_def handleDeletionTimestamp_def
      incReconciliationsTotal_def logLine_def Let_def)

theorem C9_deletion_ingestion_tier_witness:
  "GetThanosReceive exDeletingReceiveEnv (cluster exState) (''treceive'', ''test-resource'')
     = Inr exDeletingReceive
   \<and> \<not> IsZero (DeletionTimestamp exDeletingReceive)
   \<and> ContainsFinalizer exDeletingReceive receiveFinalizer
   \<and> fst (ThanosReceiveReconciler_Reconcile exDeletingReceiveEnv
            (''treceive'', ''test-resource'') exState) = Return None
   \<and> cluster (snd (ThanosReceiveReconciler_Reconcile exDeletingReceiveEnv
            (''treceive'', ''test-resource'') exState)) = []
   \<and> events (snd (ThanosReceiveReconciler_Reconcile exDeletingReceiveEnv
            (''treceive'', ''test-resource'') exState)) =
        [\<lparr>evObject = (''treceive'', ''test-resource''), evType = ''Warning'',
          evReason = ''Deleting'',
          evMessage =
            ''Custom Resource test-resource is being deleted from the namespace treceive''\<rparr>]
   \<and> logs (snd (ThanosReceiveReconciler_Reconcile exDeletingReceiveEnv
            (''treceive'', ''test-resource'') exState)) =
        [LogInfo 0
          ''performing Finalizer Operations for ThanosReceiveHashring before delete CR'' []]"
proof -
  have g: "GetThanosReceive exDeletingReceiveEnv (cluster exState)
      (''treceive'', ''test-resource'') = Inr exDeletingReceive"
    by (simp add: exDeletingReceiveEnv_def exEnv_def)
  have d: "\<not> IsZero (DeletionTimestamp exDeletingReceive)"
    by (simp add: IsZero_def exDeletingReceive_def)
  have f: "ContainsFinalizer exDeletingReceive receiveFinalizer"
    by (simp add: ContainsFinalizer_def exDeletingReceive_def)
  have n: "Name exDeletingReceive = ''test-resource''"
    "Namespace exDeletingReceive = ''treceive''"
    by (simp_all add: exDeletingReceive_def exReceive_def)
  have s: "cluster exState = []" "events exState = []" "logs exState = []"
    by (simp_all add: exState_def)
  from C9_deletion_ingestion_tier [OF g d] f g d
  show ?thesis by (simp add: n s)
qed

subsection \<open>Errors of the hashring configuration\<close>

text \<open>A failed listing of any shard ends the loop with the wrapped error of a listing.\<close>

lemma hashringSettingsLoop_list_failure:
  assumes "hr \<in> set hrs"
    and "ListEndpointSlices env c (IngesterNameFromParent (Name receiver) (hrName hr))
           (Namespace receiver) = Inl le"
  shows "\<exists>le'. hashringSettingsLoop env c receiver i hrs settings =
     Inl (ErrWrap (''failed to list endpoint slices for resource '' @ Name receiver) le')"
  using assms
proof (induction hrs arbitrary: i settings)
  case Nil
  then show ?case by simp
next
  case (Cons h hrs)
  show ?case
  proof (cases "ListEndpointSlices env c (IngesterNameFromParent (Name receiver) (hrName h))
           (Namespace receiver)")
    case (Inl e)
    then show ?thesis by simp
  next
    case (Inr eps)
    with Cons.prems have "hr \<in> set hrs" by auto
    from Cons.IH [OF this Cons.prems(2)] Inr show ?thesis by simp
  qed
qed

text \<open>
  Building the hashring configuration reads the cluster and sets the gauge: the cluster,
  the events and the log are as before.
\<close>

lemma buildHashringConfigFrom_reads_only:
  "cluster (snd (buildHashringConfigFrom env receiver cm st)) = cluster st
   \<and> events (snd (buildHashringConfigFrom env receiver cm st)) = events st
   \<and> logs (snd (buildHashringConfigFrom env receiver cm st)) = logs st"
  by (simp add: buildHashringConfigFrom_def split: sum.splits)

lemma buildHashringConfig_reads_only:
  "cluster (snd (buildHashringConfig env receiver st)) = cluster st
   \<and> events (snd (buildHashringConfig env receiver st)) = events st
   \<and> logs (snd (buildHashringConfig env receiver st)) = logs st"
  using buildHashringConfigFrom_reads_only [of env receiver _ st]
  by (simp add: buildHashringConfig_def split: sum.splits)

lemma receive_sync_config_error:
  assumes "buildHashrings env receiver = Return ingesters"
    and "buildHashringConfig env receiver st = ((conf, Some e), stc)"
    and "\<not> errorsIs e ErrHashringsEmpty"
  shows "ThanosReceiveReconciler_syncResources env receiver st =
     (Return (Some (ErrWrap ''failed to build hashring configuration'' e)), stc)"
  using assms by (simp add: ThanosReceiveReconciler_syncResources_def)

text \<open>
  C10. When building the hashring configuration returns an error that is not
  \<open>ErrHashringsEmpty\<close>, \<open>syncResources\<close> of the ingestion tier returns that error,
  wrapped, in the state building left: the ingesters are built, and no object is
  applied; cluster, events and log are those before the pass. The same holds for the
  whole pass. A failed read of the existing artifact (other than not-found) and a
  failed listing of the endpoint slices of any shard are such errors, provided the
  client's error is not itself the sentinel.
\<close>

theorem C10_config_error_applies_nothing:
  "(buildHashrings env receiver = Return ingesters
      \<and> buildHashringConfig env receiver st = ((conf, Some e), stc)
      \<and> \<not> errorsIs e ErrHashringsEmpty
      \<longrightarrow>
      ThanosReceiveReconciler_syncResources env receiver st =
        (Return (Some (ErrWrap ''failed to build hashring configuration'' e)), stc)
      \<and> cluster stc = cluster st \<and> events stc = events st \<and> logs stc = logs st)
   \<and> (GetThanosReceive env (cluster st) req = Inr receiver
      \<and> IsZero (DeletionTimestamp receiver)
      \<and> buildHashrings env receiver = Return ingesters
      \<and> buildHashringConfig env receiver (incReconciliationsTotal st) = ((conf, Some e), stc)
      \<and> \<not> errorsIs e ErrHashringsEmpty
      \<longrightarrow>
      fst (ThanosReceiveReconciler_Reconcile env req st) =
        Return (Some (ErrWrap ''failed to build hashring configuration'' e))
      \<and> cluster (snd (ThanosReceiveReconciler_Reconcile env req st)) = cluster st
      \<and> events (snd (ThanosReceiveReconciler_Reconcile env req st)) = events st
      \<and> logs (snd (ThanosReceiveReconciler_Reconcile env req st)) = logs st)
   \<and> (GetConfigMap env (cluster st) (Namespace receiver, Name receiver) = Inl ce
      \<and> \<not> IsNotFound ce
      \<longrightarrow>
      buildHashringConfig env receiver st =
        ((None, Some (ErrWrap (''failed to get config map for resource '' @ Name receiver) ce)),
         st)
      \<and> errorsIs (ErrWrap (''failed to get config map for resource '' @ Name receiver) ce)
            ErrHashringsEmpty = errorsIs ce ErrHashringsEmpty)
   \<and> ((case GetConfigMap env (cluster st) (Namespace receiver, Name receiver) of
          Inl ce \<Rightarrow> IsNotFound ce | Inr cm \<Rightarrow> True)
      \<and> hr \<in> set (Hashrings receiver)
      \<and> ListEndpointSlices env (cluster st)
            (IngesterNameFromParent (Name receiver) (hrName hr)) (Namespace receiver) = Inl le
      \<longrightarrow>
      (\<exists>le'. buildHashringConfig env receiver st =
        ((None, Some (ErrWrap (''failed to list endpoint slices for resource ''
                               @ Name receiver) le')), st)))"
proof (intro conjI impI)
  assume h: "buildHashrings env receiver = Return ingesters
      \<and> buildHashringConfig env receiver st = ((conf, Some e), stc)
      \<and> \<not> errorsIs e ErrHashringsEmpty"
  then show "ThanosReceiveReconciler_syncResources env receiver st =
        (Return (Some (ErrWrap ''failed to build hashring configuration'' e)), stc)"
    using receive_sync_config_error [of env receiver ingesters st conf e stc] by simp
  from h buildHashringConfig_reads_only [of env receiver st]
  show "cluster stc = cluster st" "events stc = events st" "logs stc = logs st"
    by simp_all
next
  assume h: "GetThanosReceive env (cluster st) req = Inr receiver
      \<and> IsZero (DeletionTimestamp receiver)
      \<and> buildHashrings env receiver = Return ingesters
      \<and> buildHashringConfig env receiver (incReconciliationsTotal st) = ((conf, Some e), stc)
      \<and> \<not> errorsIs e ErrHashringsEmpty"
  then have s: "ThanosReceiveReconciler_syncResources env receiver (incReconciliationsTotal st)
      = (Return (Some (ErrWrap ''failed to build hashring configuration'' e)), stc)"
    using receive_sync_config_error
      [of env receiver ingesters "incReconciliationsTotal st" conf e stc] by simp
  have c: "cluster (incReconciliationsTotal st) = cluster st"
    "events (incReconciliationsTotal st) = events st"
    "logs (incReconciliationsTotal st) = logs st"
    by (simp_all add: incReconciliationsTotal_def)
  from h c have r: "ThanosReceiveReconciler_Reconcile env req st =
      (Return (Some (ErrWrap ''failed to build hashring configuration'' e)),
       incReconciliationsFailedTotal stc)"
    by (simp add: ThanosReceiveReconciler_Reconcile_def Let_def s)
  from h buildHashringConfig_reads_only [of env receiver "incReconciliationsTotal st"] c
  have k: "cluster stc = cluster st" "events stc = events st" "logs stc = logs st"
    by simp_all
  show "fst (ThanosReceiveReconciler_Reconcile env req st) =
        Return (Some (ErrWrap ''failed to build hashring configuration'' e))"
    unfolding r by simp
  show "cluster (snd (ThanosReceiveReconciler_Reconcile env req st)) = cluster st"
    unfolding r using k by (simp add: incReconciliationsFailedTotal_def)
  show "events (snd (ThanosReceiveReconciler_Reconcile env req st)) = events st"
    unfolding r using k by (simp add: incReconciliationsFailedTotal_def)
  show "logs (snd (ThanosReceiveReconciler_Reconcile env req st)) = logs st"
    unfolding r using k by (simp add: incReconciliationsFailedTotal_def)
next
  assume h: "GetConfigMap env (cluster st) (Namespace receiver, Name receiver) = Inl ce
      \<and> \<not> IsNotFound ce"
  then show "buildHashringConfig env receiver st =
        ((None, Some (ErrWrap (''failed to get config map for resource '' @ Name receiver) ce)),
         st)"
    by (simp add: buildHashringConfig_def)
  show "errorsIs (ErrWrap (''failed to get config map for resource '' @ Name receiver) ce)
            ErrHashringsEmpty = errorsIs ce ErrHashringsEmpty"
    by simp
next
  assume h: "(case GetConfigMap env (cluster st) (Namespace receiver, Name receiver) of
          Inl ce \<Rightarrow> IsNotFound ce | Inr cm \<Rightarrow> True)
      \<and> hr \<in> set (Hashrings receiver)
      \<and> ListEndpointSlices env (cluster st)
            (IngesterNameFromParent (Name receiver) (hrName hr)) (Namespace receiver) = Inl le"
  then obtain le' where l: "hashringSettingsLoop env (cluster st) receiver 0
      (Hashrings receiver) [] =
     Inl (ErrWrap (''failed to list endpoint slices for resource '' @ Name receiver) le')"
    using hashringSettingsLoop_list_failure [of hr "Hashrings receiver" env "cluster st"
        receiver le 0 "[]"] by blast
  then have "\<And>cm. buildHashringConfigFrom env receiver cm st =
      ((None, Some (ErrWrap (''failed to list endpoint slices for resource ''
                               @ Name receiver) le')), st)"
    by (simp add: buildHashringConfigFrom_def)
  then have "buildHashringConfig env receiver st =
      ((None, Some (ErrWrap (''failed to list endpoint slices for resource ''
                               @ Name receiver) le')), st)"
    using h
    by (cases "GetConfigMap env (cluster st) (Namespace receiver, Name receiver)")
      (simp_all add: buildHashringConfig_def)
  then show "\<exists>le'. buildHashringConfig env receiver st =
        ((None, Some (ErrWrap (''failed to list endpoint slices for resource ''
                               @ Name receiver) le')), st)"
    by blast
qed

lemma ex_failing_config:
  "buildHashringConfig exFailingEnv exReceive (incReconciliationsTotal exState) =
     ((None, Some (ErrWrap ''failed to get config map for resource test-resource''
                     (ErrApi ''timeout''))), incReconciliationsTotal exState)"
  by (simp add: buildHashringConfig_def incReconciliationsTotal_def ex_env_defs ex_data_defs)

lemma ex_failing_ingesters: "buildHashrings exFailingEnv exReceive = Return exIngesters"
  by (simp add: buildHashrings_def ingesterOptions_def IngesterNameFromParent_def
      ex_env_defs ex_data_defs)

theorem C10_config_error_applies_nothing_witness:
  "GetThanosReceive exFailingEnv (cluster exState) (''treceive'', ''test-resource'')
     = Inr exReceive
   \<and> IsZero (DeletionTimestamp exReceive)
   \<and> buildHashrings exFailingEnv exReceive = Return exIngesters
   \<and> GetConfigMap exFailingEnv (cluster exState) (Namespace exReceive, Name exReceive)
       = Inl (ErrApi ''timeout'')
   \<and> \<not> IsNotFound (ErrApi ''timeout'')
   \<and> \<not> errorsIs (ErrWrap ''failed to get config map for resource test-resource''
                    (ErrApi ''timeout'')) ErrHashringsEmpty
   \<and> fst (ThanosReceiveReconciler_Reconcile exFailingEnv (''treceive'', ''test-resource'')
            exState)
       = Return (Some (ErrWrap ''failed to build hashring configuration''
                  (ErrWrap ''failed to get config map for resource test-resource''
                     (ErrApi ''timeout''))))
   \<and> cluster (snd (ThanosReceiveReconciler_Reconcile exFailingEnv
                     (''treceive'', ''test-resource'') exState)) = []
   \<and> logs (snd (ThanosReceiveReconciler_Reconcile exFailingEnv
                     (''treceive'', ''test-resource'') exState)) = []
   \<and> exHashring \<in> set (Hashrings exReceive)
   \<and> ListEndpointSlices exListFailingEnv (cluster exState)
        (IngesterNameFromParent (Name exReceive) (hrName exHashring)) (Namespace exReceive)
       = Inl (ErrApi ''timeout'')
   \<and> (\<exists>le'. buildHashringConfig exListFailingEnv exReceive exState =
        ((None, Some (ErrWrap ''failed to list endpoint slices for resource test-resource''
                        le')), exState))"
proof -
  let ?e = "ErrWrap ''failed to get config map for resource test-resource'' (ErrApi ''timeout'')"
  have g: "GetThanosReceive exFailingEnv (cluster exState) (''treceive'', ''test-resource'')
     = Inr exReceive"
    by (simp add: exFailingEnv_def exEnv_def)
  have z: "IsZero (DeletionTimestamp exReceive)"
    by (simp add: IsZero_def exReceive_def)
  have gc: "GetConfigMap exFailingEnv (cluster exState) (Namespace exReceive, Name exReceive)
       = Inl (ErrApi ''timeout'')"
    by (simp add: exFailingEnv_def exEnv_def)
  have nf: "\<not> IsNotFound (ErrApi ''timeout'')" by simp
  have ne: "\<not> errorsIs ?e ErrHashringsEmpty" by simp
  have s: "cluster exState = []" "logs exState = []" by (simp_all add: exState_def)
  have n: "Name exReceive = ''test-resource''" by (simp add: exReceive_def)
  have m: "exHashring \<in> set (Hashrings exReceive)" by (simp add: exReceive_def)
  have gl: "(case GetConfigMap exListFailingEnv (cluster exState)
                (Namespace exReceive, Name exReceive) of
          Inl ce \<Rightarrow> IsNotFound ce | Inr cm \<Rightarrow> True)"
    by (simp add: exListFailingEnv_def exEnv_def)
  have l: "ListEndpointSlices exListFailingEnv (cluster exState)
        (IngesterNameFromParent (Name exReceive) (hrName exHashring)) (Namespace exReceive)
       = Inl (ErrApi ''timeout'')"
    by (simp add: exListFailingEnv_def exEnv_def)
  note pass = C10_config_error_applies_nothing
    [where env = exFailingEnv and st = exState and req = "(''treceive'', ''test-resource'')"
       and receiver = exReceive and ingesters = exIngesters and conf = None and e = ?e
       and stc = "incReconciliationsTotal exState"]
  note listing = C10_config_error_applies_nothing
    [where env = exListFailingEnv and st = exState and receiver = exReceive
       and hr = exHashring and le = "ErrApi ''timeout''"]
  from pass g z ex_failing_ingesters ex_failing_config ne
  have r: "fst (ThanosReceiveReconciler_Reconcile exFailingEnv
                (''treceive'', ''test-resource'') exState)
       = Return (Some (ErrWrap ''failed to build hashring configuration'' ?e))
     \<and> cluster (snd (ThanosReceiveReconciler_Reconcile exFailingEnv
                (''treceive'', ''test-resource'') exState)) = cluster exState
     \<and> logs (snd (ThanosReceiveReconciler_Reconcile exFailingEnv
                (''treceive'', ''test-resource'') exState)) = logs exState"
    by blast
  from listing gl m l
  have "\<exists>le'. buildHashringConfig exListFailingEnv exReceive exState =
        ((None, Some (ErrWrap (''failed to list endpoint slices for resource ''
                                @ Name exReceive) le')), exState)"
    by blast
  then have q: "\<exists>le'. buildHashringConfig exListFailingEnv exReceive exState =
        ((None, Some (ErrWrap ''failed to list endpoint slices for resource test-resource''
                        le')), exState)"
    by (simp add: n)
  from g z ex_failing_ingesters gc nf ne r m l q show ?thesis
    by (simp add: s)
qed

subsection \<open>The empty shard list\<close>








subsection \<open>The hashring configuration\<close>

lemma IngesterNameFromParent_inject [simp]:
  "(IngesterNameFromParent p a = IngesterNameFromParent p b) = (a = b)"
  by (simp add: IngesterNameFromParent_def)

lemma set_update_subset: "set (AList.update k v al) \<subseteq> insert (k, v) (set al)"
  by (induction al) auto

text \<open>
  The settings the loop collects: one pair for each key, every pair stored under the
  service name of its shard together with the slices listed under that name, and a key
  for every declared shard.
\<close>

lemma hashringSettingsLoop_invariant:
  assumes "hashringSettingsLoop env c receiver i hrs settings = Inr out"
    and "distinct (map fst settings)"
    and "\<forall>(k, m) \<in> set settings.
           k = IngesterNameFromParent (Name receiver) (OriginalName m)
         \<and> ListEndpointSlices env c k (Namespace receiver) = Inr (AssociatedEndpointSlices m)"
  shows "distinct (map fst out)
     \<and> (\<forall>(k, m) \<in> set out.
           k = IngesterNameFromParent (Name receiver) (OriginalName m)
         \<and> ListEndpointSlices env c k (Namespace receiver) = Inr (AssociatedEndpointSlices m))
     \<and> fst ` set out =
         fst ` set settings \<union> (\<lambda>hr. IngesterNameFromParent (Name receiver) (hrName hr)) ` set hrs"
  using assms
proof (induction hrs arbitrary: i settings)
  case Nil
  then show ?case by simp
next
  case (Cons hr hrs)
  let ?k = "IngesterNameFromParent (Name receiver) (hrName hr)"
  show ?case
  proof (cases "ListEndpointSlices env c ?k (Namespace receiver)")
    case (Inl err)
    with Cons.prems(1) show ?thesis by simp
  next
    case (Inr eps)
    let ?m = "\<lparr>DesiredReplicasReplicas = hrReplicas hr, OriginalName = hrName hr,
               Tenants = hrTenants hr, TenantMatcherType = hrTenantMatcherType hr,
               AssociatedEndpointSlices = eps,
               Priority = int (length (Hashrings receiver)) - int i\<rparr>"
    let ?s = "AList.update ?k ?m settings"
    from Cons.prems(1) Inr
    have run: "hashringSettingsLoop env c receiver (Suc i) hrs ?s = Inr out" by simp
    have d: "distinct (map fst ?s)"
      using Cons.prems(2) by (rule distinct_update)
    have inv: "\<forall>(k, m) \<in> set ?s.
           k = IngesterNameFromParent (Name receiver) (OriginalName m)
         \<and> ListEndpointSlices env c k (Namespace receiver) = Inr (AssociatedEndpointSlices m)"
      using Cons.prems(3) Inr set_update_subset [of ?k ?m settings] by auto
    have keys: "fst ` set ?s = {?k} \<union> fst ` set settings"
      by (rule dom_update)
    from Cons.IH [OF run d inv] keys show ?thesis by auto
  qed
qed

lemma map_insort_key: "map f (insort_key f x xs) = insort (f x) (map f xs)"
  by (induction xs) simp_all

lemma map_sort_key: "map f (sort_key f xs) = sort (map f xs)"
  by (induction xs) (simp_all add: map_insort_key)

text \<open>What the synthesizer makes of one pair of the settings.\<close>

lemma hashringEntry_of_setting:
  assumes "k = IngesterNameFromParent (Name receiver) (OriginalName m)"
    and "ListEndpointSlices env c k (Namespace receiver) = Inr (AssociatedEndpointSlices m)"
  shows "hashringEntry previous (Namespace receiver) (k, m) =
     (if resolvedAddresses env c receiver (OriginalName m) = []
      then find (\<lambda>e. hashring e = OriginalName m) previous
      else Some \<lparr>hashring = OriginalName m, tenants = Tenants m,
                 tenant_matcher_type = TenantMatcherType m,
                 endpoints = map (\<lambda>a. \<lparr>address = a, az = []\<rparr>)
                   (resolvedAddresses env c receiver (OriginalName m))\<rparr>)"
  using assms
  by (simp add: hashringEntry_def resolvedAddresses_def observedSlices_def Let_def)

lemma hashringEntry_name:
  fixes receiver :: ThanosReceive and env :: "'c Env"
  assumes "k = IngesterNameFromParent (Name receiver) (OriginalName m)"
    and "ListEndpointSlices env c k (Namespace receiver) = Inr (AssociatedEndpointSlices m)"
    and "hashringEntry previous (Namespace receiver) (k, m) = Some e"
  shows "hashring e = OriginalName m"
  using assms(3) unfolding hashringEntry_of_setting [OF assms(1,2)]
  by (auto split: if_splits simp: find_Some_iff)

text \<open>
  When \<open>buildHashringConfig\<close> returns an object, it is the artifact named after the
  subject, and its rows are the entries of the collected settings, sorted by name.
\<close>

lemma buildHashringConfig_rows:
  assumes "buildHashringConfig env receiver st = ((Some obj, err), stc)"
  shows "\<exists>out cm. hashringSettingsLoop env (cluster st) receiver 0 (Hashrings receiver) []
           = Inr out
     \<and> obj = ConfigMapObject cm
     \<and> Name cm = Name receiver \<and> Namespace cm = Namespace receiver
     \<and> Data cm = Some (sort_key hashring
         (List.map_filter
            (hashringEntry (previousHashrings env (cluster st) receiver) (Namespace receiver))
            out))"
proof -
  let ?loop = "hashringSettingsLoop env (cluster st) receiver 0 (Hashrings receiver) []"
  have from_cm: "\<And>cm. buildHashringConfigFrom env receiver cm st = ((Some obj, err), stc)
      \<Longrightarrow> \<exists>out cm'. ?loop = Inr out \<and> obj = ConfigMapObject cm'
         \<and> Name cm' = Name receiver \<and> Namespace cm' = Namespace receiver
         \<and> Data cm' = Some (sort_key hashring
             (List.map_filter
                (hashringEntry (case Data cm of None \<Rightarrow> [] | Some hs \<Rightarrow> hs)
                   (Namespace receiver)) out))"
  proof -
    fix cm
    assume a: "buildHashringConfigFrom env receiver cm st = ((Some obj, err), stc)"
    show "\<exists>out cm'. ?loop = Inr out \<and> obj = ConfigMapObject cm'
         \<and> Name cm' = Name receiver \<and> Namespace cm' = Namespace receiver
         \<and> Data cm' = Some (sort_key hashring
             (List.map_filter
                (hashringEntry (case Data cm of None \<Rightarrow> [] | Some hs \<Rightarrow> hs)
                   (Namespace receiver)) out))"
    proof (cases ?loop)
      case (Inl e)
      with a show ?thesis by (simp add: buildHashringConfigFrom_def)
    next
      case (Inr out)
      with a show ?thesis
        by (cases "out = []")
          (auto simp: buildHashringConfigFrom_def BuildHashrings_def Let_def
             List.map_filter_simps)
    qed
  qed
  show ?thesis
  proof (cases "GetConfigMap env (cluster st) (Namespace receiver, Name receiver)")
    case (Inl ce)
    with assms have "buildHashringConfigFrom env receiver emptyConfigMap st
        = ((Some obj, err), stc)"
      by (simp add: buildHashringConfig_def split: if_splits)
    from from_cm [OF this] Inl show ?thesis
      by (simp add: previousHashrings_def emptyConfigMap_def)
  next
    case (Inr cm)
    with assms have "buildHashringConfigFrom env receiver cm st = ((Some obj, err), stc)"
      by (simp add: buildHashringConfig_def)
    from from_cm [OF this] Inr show ?thesis
      by (simp add: previousHashrings_def)
  qed
qed

lemma set_map_filter_Some:
  "set (List.map_filter f xs) = {y. \<exists>x \<in> set xs. f x = Some y}"
  by (induction xs) (auto simp: List.map_filter_simps split: option.splits)

text \<open>
  The facts about a returned artifact that the three properties below share: the
  collected settings \<open>out\<close> have one pair for each key, every pair is stored under the
  service name of its shard with the slices observed for it, every declared shard has
  a pair, and the rows are the entries of the pairs sorted by name.
\<close>

lemma returned_artifact:
  assumes "buildHashringConfig env receiver st = ((Some (ConfigMapObject cm), err), stc)"
  shows "\<exists>out. distinct (map fst out)
     \<and> (\<forall>(k, m) \<in> set out.
           k = IngesterNameFromParent (Name receiver) (OriginalName m)
         \<and> ListEndpointSlices env (cluster st) k (Namespace receiver)
             = Inr (AssociatedEndpointSlices m))
     \<and> fst ` set out
         = (\<lambda>hr. IngesterNameFromParent (Name receiver) (hrName hr)) ` set (Hashrings receiver)
     \<and> Data cm = Some (sort_key hashring
         (List.map_filter
            (hashringEntry (previousHashrings env (cluster st) receiver) (Namespace receiver))
            out))"
proof -
  from buildHashringConfig_rows [OF assms] obtain out where
    loop: "hashringSettingsLoop env (cluster st) receiver 0 (Hashrings receiver) [] = Inr out"
    and data: "Data cm = Some (sort_key hashring
         (List.map_filter
            (hashringEntry (previousHashrings env (cluster st) receiver) (Namespace receiver))
            out))"
    by auto
  from hashringSettingsLoop_invariant [OF loop] data show ?thesis
    by (intro exI [of _ out]) simp
qed

lemma setting_of_shard:
  assumes "\<forall>(k, m) \<in> set out.
           k = IngesterNameFromParent (Name receiver) (OriginalName m)
         \<and> ListEndpointSlices env c k (Namespace receiver) = Inr (AssociatedEndpointSlices m)"
    and "fst ` set out
         = (\<lambda>hr. IngesterNameFromParent (Name receiver) (hrName hr)) ` set hrs"
    and "hr \<in> set hrs"
  shows "\<exists>m. (IngesterNameFromParent (Name receiver) (hrName hr), m) \<in> set out
     \<and> OriginalName m = hrName hr"
proof -
  from assms(2,3) have "IngesterNameFromParent (Name receiver) (hrName hr) \<in> fst ` set out"
    by blast
  then obtain m where m: "(IngesterNameFromParent (Name receiver) (hrName hr), m) \<in> set out"
    by auto
  with assms(1) have "IngesterNameFromParent (Name receiver) (hrName hr)
      = IngesterNameFromParent (Name receiver) (OriginalName m)"
    by auto
  then have "OriginalName m = hrName hr" by simp
  with m show ?thesis by blast
qed

text \<open>A row named after a shard comes from the one pair of that shard.\<close>

lemma row_of_shard:
  fixes receiver :: ThanosReceive and env :: "'c Env"
  assumes d: "distinct (map fst out)"
    and inv: "\<forall>(k, m) \<in> set out.
           k = IngesterNameFromParent (Name receiver) (OriginalName m)
         \<and> ListEndpointSlices env c k (Namespace receiver) = Inr (AssociatedEndpointSlices m)"
    and m: "(IngesterNameFromParent (Name receiver) shard, m) \<in> set out"
    and e: "e \<in> set (List.map_filter (hashringEntry previous (Namespace receiver)) out)"
    and n: "hashring e = shard"
  shows "hashringEntry previous (Namespace receiver)
           (IngesterNameFromParent (Name receiver) shard, m) = Some e"
proof -
  from e obtain k' m' where km: "(k', m') \<in> set out"
    and ent: "hashringEntry previous (Namespace receiver) (k', m') = Some e"
    by (auto simp: set_map_filter_Some)
  from inv km have k': "k' = IngesterNameFromParent (Name receiver) (OriginalName m')"
    and l': "ListEndpointSlices env c k' (Namespace receiver)
               = Inr (AssociatedEndpointSlices m')"
    by auto
  from hashringEntry_name [OF k' l' ent] n have "OriginalName m' = shard" by simp
  with k' have "k' = IngesterNameFromParent (Name receiver) shard" by simp
  with d km m have "m' = m" by (metis eq_key_imp_eq_value)
  with ent \<open>k' = IngesterNameFromParent (Name receiver) shard\<close> show ?thesis by simp
qed

text \<open>The resolved addresses: sorted, without duplicates, and exactly the renderings of
  the kept endpoints.\<close>

lemma readyAddresses_set:
  "set (readyAddresses identity namespace slices) =
     {fqdn h identity namespace | h ep slice.
        slice \<in> set slices \<and> ep \<in> set (SliceEndpoints slice)
        \<and> readyEndpoint ep \<and> Hostname ep = Some h}"
  by (auto simp: readyAddresses_def set_map_filter_Some split: if_splits)

lemma readyAddresses_sorted:
  "sorted (readyAddresses identity namespace slices)
   \<and> distinct (readyAddresses identity namespace slices)"
  by (simp add: readyAddresses_def)

lemmas synth_defs = buildHashringConfig_def buildHashringConfigFrom_def BuildHashrings_def
  hashringEntry_def readyAddresses_def readyEndpoint_def fqdn_def IngesterNameFromParent_def
  emptyConfigMap_def List.map_filter_simps Let_def

lemma ex_preserved_config:
  "buildHashringConfig exPreservedEnv exReceive exState =
     ((Some (ConfigMapObject (exArtifact [exOldEntry])), None), exGauged 1)"
  by (simp add: synth_defs ex_env_defs ex_data_defs)

lemma ex_ready_config:
  "buildHashringConfig exReadyEnv exReceive exState =
     ((Some (ConfigMapObject (exArtifact
        [\<lparr>hashring = ''test-hashring'', tenants = [''test-tenant''],
          tenant_matcher_type = ''exact'',
          endpoints =
            [\<lparr>address = ''some-hostname-b.test-resource-test-hashring.treceive.svc.cluster.local:19291'',
              az = []\<rparr>,
             \<lparr>address = ''some-hostname-c.test-resource-test-hashring.treceive.svc.cluster.local:19291'',
              az = []\<rparr>,
             \<lparr>address = ''some-hostname.test-resource-test-hashring.treceive.svc.cluster.local:19291'',
              az = []\<rparr>]\<rparr>])), None), exGauged 1)"
  by (simp add: synth_defs ex_env_defs ex_data_defs)

text \<open>
  C3. Take a pass that returns an artifact, a declared shard for which no address is
  resolved, and the entry \<open>old\<close> that the existing artifact has for the shard's name.
  Then \<open>old\<close> is a row of the new artifact, and it is the only row of that name: the
  shard keeps its previous endpoint list (and its previous tenants).
\<close>

theorem C3_previous_entry_preserved:
  assumes bc: "buildHashringConfig env receiver st = ((Some (ConfigMapObject cm), err), stc)"
    and hr: "hr \<in> set (Hashrings receiver)"
    and none: "resolvedAddresses env (cluster st) receiver (hrName hr) = []"
    and old: "find (\<lambda>e. hashring e = hrName hr) (previousHashrings env (cluster st) receiver)
                = Some old"
  shows "\<exists>rows. Data cm = Some rows \<and> old \<in> set rows
     \<and> (\<forall>e \<in> set rows. hashring e = hrName hr \<longrightarrow> e = old)"
proof -
  let ?prev = "previousHashrings env (cluster st) receiver"
  let ?f = "hashringEntry ?prev (Namespace receiver)"
  let ?k = "IngesterNameFromParent (Name receiver) (hrName hr)"
  from returned_artifact [OF bc] obtain out where
    d: "distinct (map fst out)"
    and inv: "\<forall>(k, m) \<in> set out.
           k = IngesterNameFromParent (Name receiver) (OriginalName m)
         \<and> ListEndpointSlices env (cluster st) k (Namespace receiver)
             = Inr (AssociatedEndpointSlices m)"
    and keys: "fst ` set out
         = (\<lambda>hr. IngesterNameFromParent (Name receiver) (hrName hr)) ` set (Hashrings receiver)"
    and data: "Data cm = Some (sort_key hashring (List.map_filter ?f out))"
    by blast
  from setting_of_shard [OF inv keys hr] obtain m where
    m: "(?k, m) \<in> set out" and nm: "OriginalName m = hrName hr"
    by blast
  from inv m have km: "?k = IngesterNameFromParent (Name receiver) (OriginalName m)"
    and lm: "ListEndpointSlices env (cluster st) ?k (Namespace receiver)
               = Inr (AssociatedEndpointSlices m)"
    by auto
  have ent: "?f (?k, m) = Some old"
    unfolding hashringEntry_of_setting [OF km lm] using none old nm by simp
  with m have "old \<in> set (List.map_filter ?f out)"
    by (auto simp: set_map_filter_Some)
  moreover have "\<forall>e \<in> set (List.map_filter ?f out). hashring e = hrName hr \<longrightarrow> e = old"
  proof (intro ballI impI)
    fix e
    assume "e \<in> set (List.map_filter ?f out)" and "hashring e = hrName hr"
    from row_of_shard [OF d inv m this] ent show "e = old" by simp
  qed
  ultimately show ?thesis using data by simp
qed

theorem C3_previous_entry_preserved_witness:
  "buildHashringConfig exPreservedEnv exReceive exState =
     ((Some (ConfigMapObject (exArtifact [exOldEntry])), None), exGauged 1)
   \<and> exHashring \<in> set (Hashrings exReceive)
   \<and> resolvedAddresses exPreservedEnv (cluster exState) exReceive (hrName exHashring) = []
   \<and> find (\<lambda>e. hashring e = hrName exHashring)
        (previousHashrings exPreservedEnv (cluster exState) exReceive) = Some exOldEntry
   \<and> endpoints exOldEntry \<noteq> []
   \<and> (\<exists>rows. Data (exArtifact [exOldEntry]) = Some rows \<and> exOldEntry \<in> set rows)"
proof -
  have hr: "exHashring \<in> set (Hashrings exReceive)" by (simp add: exReceive_def)
  have none: "resolvedAddresses exPreservedEnv (cluster exState) exReceive (hrName exHashring)
      = []"
    by (simp add: resolvedAddresses_def observedSlices_def readyAddresses_def
        ex_env_defs ex_data_defs)
  have old: "find (\<lambda>e. hashring e = hrName exHashring)
        (previousHashrings exPreservedEnv (cluster exState) exReceive) = Some exOldEntry"
    by (simp add: previousHashrings_def ex_env_defs ex_data_defs)
  have ne: "endpoints exOldEntry \<noteq> []" by (simp add: exOldEntry_def)
  from C3_previous_entry_preserved [OF ex_preserved_config hr none old]
  have "\<exists>rows. Data (exArtifact [exOldEntry]) = Some rows \<and> exOldEntry \<in> set rows"
    by blast
  with ex_preserved_config hr none old ne show ?thesis by blast
qed

text \<open>
  C2, as stated, at a concrete input. The shard \<open>test-hashring\<close> has no endpoint slice
  at all, and the existing artifact has an entry for it: the entry of the new
  artifact lists the address of that entry, which is no address of an endpoint slice.
\<close>

theorem C2_endpoints_counterexample:
  "Hashrings exReceive = [exHashring]
   \<and> hrName exHashring = ''test-hashring''
   \<and> observedSlices exPreservedEnv (cluster exState) exReceive ''test-hashring'' = []
   \<and> fst (buildHashringConfig exPreservedEnv exReceive exState) =
       (Some (ConfigMapObject (exArtifact
          [\<lparr>hashring = ''test-hashring'', tenants = [''test-tenant''],
            tenant_matcher_type = ''exact'',
            endpoints =
              [\<lparr>address = ''old.test-resource-test-hashring.treceive.svc.cluster.local:19291'',
                az = []\<rparr>]\<rparr>])), None)"
proof -
  have "observedSlices exPreservedEnv (cluster exState) exReceive ''test-hashring'' = []"
    by (simp add: observedSlices_def ex_env_defs)
  then show ?thesis
    using ex_preserved_config by (simp add: exReceive_def exHashring_def exOldEntry_def)
qed

text \<open>
  C2, amended to the shards for which an address is resolved. Take a pass that returns
  an artifact and a declared shard with at least one kept address. The artifact has
  exactly one row of the shard's name, and the addresses of its endpoint list are
  exactly the renderings
  \<open><hostname>.<subject>-<shard>.<namespace>.svc.cluster.local:19291\<close> of the endpoints,
  in the slices listed for the shard, that are flagged ready and serving and not
  flagged terminating; the list is sorted and has no duplicates. On the slice of the
  controller test the resolved list is the one the test expects, in that order.
\<close>

theorem C2_resolved_endpoints:
  assumes bc: "buildHashringConfig env receiver st = ((Some (ConfigMapObject cm), err), stc)"
    and hr: "hr \<in> set (Hashrings receiver)"
    and some: "resolvedAddresses env (cluster st) receiver (hrName hr) \<noteq> []"
  shows "(\<exists>rows row. Data cm = Some rows \<and> row \<in> set rows \<and> hashring row = hrName hr
       \<and> (\<forall>e \<in> set rows. hashring e = hrName hr \<longrightarrow> e = row)
       \<and> set (map address (endpoints row)) =
           {h @ ''.'' @ Name receiver @ ''-'' @ hrName hr @ ''.'' @ Namespace receiver
              @ ''.svc.cluster.local:19291'' | h ep slice.
              slice \<in> set (observedSlices env (cluster st) receiver (hrName hr))
            \<and> ep \<in> set (SliceEndpoints slice)
            \<and> Ready ep = Some True \<and> Serving ep = Some True \<and> Terminating ep \<noteq> Some True
            \<and> Hostname ep = Some h}
       \<and> sorted (map address (endpoints row))
       \<and> distinct (map address (endpoints row)))
     \<and> readyAddresses (IngesterNameFromParent ''test-resource'' ''test-hashring'') ''treceive''
          [exSlice] =
         [''some-hostname-b.test-resource-test-hashring.treceive.svc.cluster.local:19291'',
          ''some-hostname-c.test-resource-test-hashring.treceive.svc.cluster.local:19291'',
          ''some-hostname.test-resource-test-hashring.treceive.svc.cluster.local:19291'']"
proof
  let ?prev = "previousHashrings env (cluster st) receiver"
  let ?f = "hashringEntry ?prev (Namespace receiver)"
  let ?k = "IngesterNameFromParent (Name receiver) (hrName hr)"
  let ?addrs = "resolvedAddresses env (cluster st) receiver (hrName hr)"
  from returned_artifact [OF bc] obtain out where
    d: "distinct (map fst out)"
    and inv: "\<forall>(k, m) \<in> set out.
           k = IngesterNameFromParent (Name receiver) (OriginalName m)
         \<and> ListEndpointSlices env (cluster st) k (Namespace receiver)
             = Inr (AssociatedEndpointSlices m)"
    and keys: "fst ` set out
         = (\<lambda>hr. IngesterNameFromParent (Name receiver) (hrName hr)) ` set (Hashrings receiver)"
    and data: "Data cm = Some (sort_key hashring (List.map_filter ?f out))"
    by blast
  from setting_of_shard [OF inv keys hr] obtain m where
    m: "(?k, m) \<in> set out" and nm: "OriginalName m = hrName hr"
    by blast
  from inv m have km: "?k = IngesterNameFromParent (Name receiver) (OriginalName m)"
    and lm: "ListEndpointSlices env (cluster st) ?k (Namespace receiver)
               = Inr (AssociatedEndpointSlices m)"
    by auto
  let ?row = "\<lparr>hashring = hrName hr, tenants = Tenants m,
               tenant_matcher_type = TenantMatcherType m,
               endpoints = map (\<lambda>a. \<lparr>address = a, az = []\<rparr>) ?addrs\<rparr>"
  have ent: "?f (?k, m) = Some ?row"
    unfolding hashringEntry_of_setting [OF km lm] using some nm by simp
  with m have mem: "?row \<in> set (sort_key hashring (List.map_filter ?f out))"
    by (auto simp: set_map_filter_Some)
  have uniq: "\<forall>e \<in> set (sort_key hashring (List.map_filter ?f out)).
      hashring e = hrName hr \<longrightarrow> e = ?row"
  proof (intro ballI impI)
    fix e
    assume "e \<in> set (sort_key hashring (List.map_filter ?f out))"
      and n: "hashring e = hrName hr"
    then have "e \<in> set (List.map_filter ?f out)" by simp
    from row_of_shard [OF d inv m this n] ent show "e = ?row" by simp
  qed
  have addr: "map address (endpoints ?row) = ?addrs"
    by (simp add: comp_def)
  have s: "set ?addrs =
           {h @ ''.'' @ Name receiver @ ''-'' @ hrName hr @ ''.'' @ Namespace receiver
              @ ''.svc.cluster.local:19291'' | h ep slice.
              slice \<in> set (observedSlices env (cluster st) receiver (hrName hr))
            \<and> ep \<in> set (SliceEndpoints slice)
            \<and> Ready ep = Some True \<and> Serving ep = Some True \<and> Terminating ep \<noteq> Some True
            \<and> Hostname ep = Some h}"
    unfolding resolvedAddresses_def readyAddresses_set
    by (simp add: fqdn_def IngesterNameFromParent_def readyEndpoint_def)
  have so: "sorted ?addrs \<and> distinct ?addrs"
    unfolding resolvedAddresses_def by (rule readyAddresses_sorted)
  show "\<exists>rows row. Data cm = Some rows \<and> row \<in> set rows \<and> hashring row = hrName hr
       \<and> (\<forall>e \<in> set rows. hashring e = hrName hr \<longrightarrow> e = row)
       \<and> set (map address (endpoints row)) =
           {h @ ''.'' @ Name receiver @ ''-'' @ hrName hr @ ''.'' @ Namespace receiver
              @ ''.svc.cluster.local:19291'' | h ep slice.
              slice \<in> set (observedSlices env (cluster st) receiver (hrName hr))
            \<and> ep \<in> set (SliceEndpoints slice)
            \<and> Ready ep = Some True \<and> Serving ep = Some True \<and> Terminating ep \<noteq> Some True
            \<and> Hostname ep = Some h}
       \<and> sorted (map address (endpoints row))
       \<and> distinct (map address (endpoints row))"
  proof (intro exI conjI)
    show "Data cm = Some (sort_key hashring (List.map_filter ?f out))" by (rule data)
    show "?row \<in> set (sort_key hashring (List.map_filter ?f out))" by (rule mem)
    show "hashring ?row = hrName hr" by simp
    show "\<forall>e \<in> set (sort_key hashring (List.map_filter ?f out)).
      hashring e = hrName hr \<longrightarrow> e = ?row" by (rule uniq)
    show "set (map address (endpoints ?row)) =
           {h @ ''.'' @ Name receiver @ ''-'' @ hrName hr @ ''.'' @ Namespace receiver
              @ ''.svc.cluster.local:19291'' | h ep slice.
              slice \<in> set (observedSlices env (cluster st) receiver (hrName hr))
            \<and> ep \<in> set (SliceEndpoints slice)
            \<and> Ready ep = Some True \<and> Serving ep = Some True \<and> Terminating ep \<noteq> Some True
            \<and> Hostname ep = Some h}"
      by (simp only: addr s)
    show "sorted (map address (endpoints ?row))"
      using so by (simp only: addr)
    show "distinct (map address (endpoints ?row))"
      using so by (simp only: addr)
  qed
next
  show "readyAddresses (IngesterNameFromParent ''test-resource'' ''test-hashring'') ''treceive''
          [exSlice] =
         [''some-hostname-b.test-resource-test-hashring.treceive.svc.cluster.local:19291'',
          ''some-hostname-c.test-resource-test-hashring.treceive.svc.cluster.local:19291'',
          ''some-hostname.test-resource-test-hashring.treceive.svc.cluster.local:19291'']"
    by (simp add: synth_defs ex_data_defs)
qed

theorem C2_resolved_endpoints_witness:
  "buildHashringConfig exReadyEnv exReceive exState =
     ((Some (ConfigMapObject (exArtifact
        [\<lparr>hashring = ''test-hashring'', tenants = [''test-tenant''],
          tenant_matcher_type = ''exact'',
          endpoints =
            [\<lparr>address = ''some-hostname-b.test-resource-test-hashring.treceive.svc.cluster.local:19291'',
              az = []\<rparr>,
             \<lparr>address = ''some-hostname-c.test-resource-test-hashring.treceive.svc.cluster.local:19291'',
              az = []\<rparr>,
             \<lparr>address = ''some-hostname.test-resource-test-hashring.treceive.svc.cluster.local:19291'',
              az = []\<rparr>]\<rparr>])), None), exGauged 1)
   \<and> exHashring \<in> set (Hashrings exReceive)
   \<and> resolvedAddresses exReadyEnv (cluster exState) exReceive (hrName exHashring) \<noteq> []
   \<and> set [''some-hostname-b.test-resource-test-hashring.treceive.svc.cluster.local:19291'',
           ''some-hostname-c.test-resource-test-hashring.treceive.svc.cluster.local:19291'',
           ''some-hostname.test-resource-test-hashring.treceive.svc.cluster.local:19291''] =
        {h @ ''.'' @ Name exReceive @ ''-'' @ hrName exHashring @ ''.'' @ Namespace exReceive
           @ ''.svc.cluster.local:19291'' | h ep slice.
           slice \<in> set (observedSlices exReadyEnv (cluster exState) exReceive
                           (hrName exHashring))
         \<and> ep \<in> set (SliceEndpoints slice)
         \<and> Ready ep = Some True \<and> Serving ep = Some True \<and> Terminating ep \<noteq> Some True
         \<and> Hostname ep = Some h}"
proof -
  let ?row = "\<lparr>hashring = ''test-hashring'', tenants = [''test-tenant''],
          tenant_matcher_type = ''exact'',
          endpoints =
            [\<lparr>address = ''some-hostname-b.test-resource-test-hashring.treceive.svc.cluster.local:19291'',
              az = []\<rparr>,
             \<lparr>address = ''some-hostname-c.test-resource-test-hashring.treceive.svc.cluster.local:19291'',
              az = []\<rparr>,
             \<lparr>address = ''some-hostname.test-resource-test-hashring.treceive.svc.cluster.local:19291'',
              az = []\<rparr>]\<rparr>"
  let ?S = "{h @ ''.'' @ Name exReceive @ ''-'' @ hrName exHashring @ ''.'' @ Namespace exReceive
           @ ''.svc.cluster.local:19291'' | h ep slice.
           slice \<in> set (observedSlices exReadyEnv (cluster exState) exReceive
                           (hrName exHashring))
         \<and> ep \<in> set (SliceEndpoints slice)
         \<and> Ready ep = Some True \<and> Serving ep = Some True \<and> Terminating ep \<noteq> Some True
         \<and> Hostname ep = Some h}"
  have hr: "exHashring \<in> set (Hashrings exReceive)" by (simp add: exReceive_def)
  have some: "resolvedAddresses exReadyEnv (cluster exState) exReceive (hrName exHashring)
      \<noteq> []"
    by (simp add: resolvedAddresses_def observedSlices_def synth_defs
        ex_env_defs ex_data_defs)
  have data: "Data (exArtifact [?row]) = Some [?row]" by (simp add: exArtifact_def)
  from C2_resolved_endpoints [OF ex_ready_config hr some] obtain rows row where
    r0: "Data (exArtifact [?row]) = Some rows" and r1: "row \<in> set rows"
    and r3: "set (map address (endpoints row)) = ?S"
    by (elim conjE exE)
  from r0 data have "rows = [?row]" by simp
  with r1 have "row = ?row" by simp
  with r3 have "set (map address (endpoints ?row)) = ?S" by (simp only:)
  then have "set [''some-hostname-b.test-resource-test-hashring.treceive.svc.cluster.local:19291'',
           ''some-hostname-c.test-resource-test-hashring.treceive.svc.cluster.local:19291'',
           ''some-hostname.test-resource-test-hashring.treceive.svc.cluster.local:19291''] = ?S"
    by (simp only: HashringConfig.simps HashringEndpoint.simps list.map)
  with ex_ready_config hr some show ?thesis by (intro conjI)
qed

text \<open>
  C1, as stated, at a concrete input: the state of the controller test before any
  endpoint slice exists. One shard is declared, there is no artifact yet and no slice
  is listed; the pass returns the artifact with no row, where the claim has one row for
  the shard.
\<close>

theorem C1_one_entry_counterexample:
  "map hrName (Hashrings exReceive) = [''test-hashring'']
   \<and> distinct (map hrName (Hashrings exReceive))
   \<and> GetConfigMap exReceiveEnv (cluster exState) (Namespace exReceive, Name exReceive)
       = Inl ErrNotFound
   \<and> ListEndpointSlices exReceiveEnv (cluster exState) ''test-resource-test-hashring''
        ''treceive'' = Inr []
   \<and> fst (buildHashringConfig exReceiveEnv exReceive exState)
       = (Some (ConfigMapObject (exArtifact [])), None)
   \<and> Data (exArtifact []) = Some []"
  using ex_buildHashringConfig
  by (simp add: exReceive_def exHashring_def exReceiveEnv_def exEnv_def exArtifact_def)

text \<open>The names of the rows, before sorting: the names of the pairs that have an entry.\<close>

lemma entry_names:
  fixes receiver :: ThanosReceive and env :: "'c Env"
  assumes "\<forall>(k, m) \<in> set out.
           k = IngesterNameFromParent (Name receiver) (OriginalName m)
         \<and> ListEndpointSlices env c k (Namespace receiver) = Inr (AssociatedEndpointSlices m)"
  shows "map hashring (List.map_filter (hashringEntry previous (Namespace receiver)) out) =
     filter (\<lambda>n. resolvedAddresses env c receiver n \<noteq> [] \<or> n \<in> hashring ` set previous)
       (map (\<lambda>km. OriginalName (snd km)) out)"
  using assms
proof (induction out)
  case Nil
  show ?case by (simp add: List.map_filter_simps)
next
  case (Cons km out)
  obtain k m where km: "km = (k, m)" by (cases km)
  from Cons.prems km
  have k: "k = IngesterNameFromParent (Name receiver) (OriginalName m)"
    and l: "ListEndpointSlices env c k (Namespace receiver) = Inr (AssociatedEndpointSlices m)"
    and rest: "\<forall>(k, m) \<in> set out.
           k = IngesterNameFromParent (Name receiver) (OriginalName m)
         \<and> ListEndpointSlices env c k (Namespace receiver) = Inr (AssociatedEndpointSlices m)"
    by auto
  note ent = hashringEntry_of_setting [OF k l, of previous]
  show ?case
  proof (cases "resolvedAddresses env c receiver (OriginalName m) = []")
    case False
    with ent Cons.IH [OF rest] km show ?thesis
      by (simp add: List.map_filter_simps)
  next
    case True
    show ?thesis
    proof (cases "find (\<lambda>e. hashring e = OriginalName m) previous")
      case None
      then have "OriginalName m \<notin> hashring ` set previous"
        by (auto simp: find_None_iff)
      with None True ent Cons.IH [OF rest] km show ?thesis
        by (simp add: List.map_filter_simps)
    next
      case (Some e)
      then have "hashring e = OriginalName m" "e \<in> set previous"
        by (auto simp: find_Some_iff)
      then have "OriginalName m \<in> hashring ` set previous" by force
      with Some True ent Cons.IH [OF rest] km \<open>hashring e = OriginalName m\<close> show ?thesis
        by (simp add: List.map_filter_simps)
    qed
  qed
qed

text \<open>With unique shard names, the pairs carry exactly the declared names, each once.\<close>

lemma setting_names:
  assumes d: "distinct (map fst out)"
    and inv: "\<forall>(k, m) \<in> set out. k = IngesterNameFromParent p (OriginalName m) \<and> Q k m"
    and keys: "fst ` set out = (\<lambda>hr. IngesterNameFromParent p (hrName hr)) ` set hrs"
  shows "distinct (map (\<lambda>km. OriginalName (snd km)) out)
     \<and> set (map (\<lambda>km. OriginalName (snd km)) out) = hrName ` set hrs"
proof -
  let ?g = "\<lambda>km. OriginalName (snd km)"
  from inv have fst_eq: "map fst out = map (IngesterNameFromParent p) (map ?g out)"
    by (induction out) auto
  have "distinct (map (IngesterNameFromParent p) (map ?g out))"
    using d by (simp only: fst_eq)
  then have dist: "distinct (map ?g out)"
    by (rule distinct_map [THEN iffD1, THEN conjunct1])
  from fst_eq have "fst ` set out = IngesterNameFromParent p ` set (map ?g out)"
    by (metis list.set_map)
  with keys have "IngesterNameFromParent p ` set (map ?g out)
      = IngesterNameFromParent p ` (hrName ` set hrs)"
    by (simp add: image_image)
  moreover have "inj (IngesterNameFromParent p)"
    by (rule injI) simp
  ultimately have "set (map ?g out) = hrName ` set hrs"
    by (simp add: inj_image_eq_iff)
  with dist show ?thesis by simp
qed

text \<open>
  A shard has a resolved address exactly when one of its listed slices has an endpoint
  that is flagged ready and serving, is not flagged terminating, and has a hostname.
\<close>

lemma resolvedAddresses_nonempty:
  "(resolvedAddresses env c receiver n \<noteq> []) =
     (\<exists>slice \<in> set (observedSlices env c receiver n).
        \<exists>ep \<in> set (SliceEndpoints slice).
          Ready ep = Some True \<and> Serving ep = Some True \<and> Terminating ep \<noteq> Some True
          \<and> Hostname ep \<noteq> None)"
proof -
  have "(resolvedAddresses env c receiver n \<noteq> []) =
      (set (resolvedAddresses env c receiver n) \<noteq> {})"
    by simp
  also have "\<dots> = (\<exists>slice \<in> set (observedSlices env c receiver n).
        \<exists>ep \<in> set (SliceEndpoints slice). readyEndpoint ep \<and> Hostname ep \<noteq> None)"
    unfolding resolvedAddresses_def readyAddresses_set by auto
  finally show ?thesis by (simp add: readyEndpoint_def)
qed

text \<open>
  C1, amended to the shards that have something to route to. For a list of shards
  with unique names and a pass that returns an artifact, the names of the rows are,
  sorted, the names of the declared shards that have an endpoint-slice address flagged
  ready and serving, not flagged terminating and carrying a hostname, or that have an
  entry in the existing artifact: one row for each such shard, no row for any other
  declared shard, and no row that is not of a declared shard. The shards with such
  an address are those with a resolved address.
\<close>

theorem C1_one_entry_per_routable_shard:
  assumes u: "distinct (map hrName (Hashrings receiver))"
    and bc: "buildHashringConfig env receiver st = ((Some (ConfigMapObject cm), err), stc)"
  shows "\<exists>rows. Data cm = Some rows
     \<and> map hashring rows =
         sort (filter (\<lambda>n.
                   (\<exists>slice \<in> set (observedSlices env (cluster st) receiver n).
                      \<exists>ep \<in> set (SliceEndpoints slice).
                        Ready ep = Some True \<and> Serving ep = Some True
                        \<and> Terminating ep \<noteq> Some True \<and> Hostname ep \<noteq> None)
                   \<or> n \<in> hashring ` set (previousHashrings env (cluster st) receiver))
                 (map hrName (Hashrings receiver)))
     \<and> sorted (map hashring rows)
     \<and> distinct (map hashring rows)
     \<and> set (map hashring rows) \<subseteq> set (map hrName (Hashrings receiver))
     \<and> (\<forall>n. (resolvedAddresses env (cluster st) receiver n \<noteq> []) =
              (\<exists>slice \<in> set (observedSlices env (cluster st) receiver n).
                 \<exists>ep \<in> set (SliceEndpoints slice).
                   Ready ep = Some True \<and> Serving ep = Some True
                   \<and> Terminating ep \<noteq> Some True \<and> Hostname ep \<noteq> None))"
proof -
  let ?prev = "previousHashrings env (cluster st) receiver"
  let ?f = "hashringEntry ?prev (Namespace receiver)"
  let ?P = "\<lambda>n. resolvedAddresses env (cluster st) receiver n \<noteq> [] \<or> n \<in> hashring ` set ?prev"
  let ?Q = "\<lambda>n. (\<exists>slice \<in> set (observedSlices env (cluster st) receiver n).
                      \<exists>ep \<in> set (SliceEndpoints slice).
                        Ready ep = Some True \<and> Serving ep = Some True
                        \<and> Terminating ep \<noteq> Some True \<and> Hostname ep \<noteq> None)
                   \<or> n \<in> hashring ` set ?prev"
  let ?g = "\<lambda>km. OriginalName (snd km)"
  let ?declared = "map hrName (Hashrings receiver)"
  from returned_artifact [OF bc] obtain out where
    d: "distinct (map fst out)"
    and inv: "\<forall>(k, m) \<in> set out.
           k = IngesterNameFromParent (Name receiver) (OriginalName m)
         \<and> ListEndpointSlices env (cluster st) k (Namespace receiver)
             = Inr (AssociatedEndpointSlices m)"
    and keys: "fst ` set out
         = (\<lambda>hr. IngesterNameFromParent (Name receiver) (hrName hr)) ` set (Hashrings receiver)"
    and data: "Data cm = Some (sort_key hashring (List.map_filter ?f out))"
    by blast
  let ?rows = "sort_key hashring (List.map_filter ?f out)"
  have names: "map hashring ?rows = sort (filter ?P (map ?g out))"
    unfolding map_sort_key entry_names [OF inv] by (rule refl)
  from setting_names [OF d inv keys]
  have dg: "distinct (map ?g out)" and sg: "set (map ?g out) = set ?declared"
    by simp_all
  have "sort (filter ?P (map ?g out)) = sort (filter ?P ?declared)"
  proof (rule sorted_distinct_set_unique)
    show "sorted (sort (filter ?P (map ?g out)))" by simp
    show "distinct (sort (filter ?P (map ?g out)))" using dg by simp
    show "sorted (sort (filter ?P ?declared))" by simp
    show "distinct (sort (filter ?P ?declared))" using u by simp
    show "set (sort (filter ?P (map ?g out))) = set (sort (filter ?P ?declared))"
      using sg by simp
  qed
  with names have n: "map hashring ?rows = sort (filter ?P ?declared)" by simp
  have pq: "?P = ?Q"
    by (rule ext) (simp only: resolvedAddresses_nonempty)
  have nq: "map hashring ?rows = sort (filter ?Q ?declared)"
    using n by (simp only: pq)
  have s: "sorted (map hashring ?rows)" unfolding n by simp
  have di: "distinct (map hashring ?rows)" unfolding n using u by simp
  have su: "set (map hashring ?rows) \<subseteq> set ?declared" unfolding n by auto
  have eq: "\<forall>n. (resolvedAddresses env (cluster st) receiver n \<noteq> []) =
              (\<exists>slice \<in> set (observedSlices env (cluster st) receiver n).
                 \<exists>ep \<in> set (SliceEndpoints slice).
                   Ready ep = Some True \<and> Serving ep = Some True
                   \<and> Terminating ep \<noteq> Some True \<and> Hostname ep \<noteq> None)"
    by (intro allI) (rule resolvedAddresses_nonempty)
  from data nq s di su eq show ?thesis
    by (intro exI [of _ ?rows] conjI)
qed

theorem C1_one_entry_per_routable_shard_witness:
  "map hrName (Hashrings exTwoReceive) = [''test-hashring'', ''another'']
   \<and> distinct (map hrName (Hashrings exTwoReceive))
   \<and> (\<exists>cm stc rows.
         buildHashringConfig exAllReadyEnv exTwoReceive exState
           = ((Some (ConfigMapObject cm), None), stc)
       \<and> Data cm = Some rows
       \<and> map hashring rows = [''another'', ''test-hashring''])"
proof -
  have names: "map hrName (Hashrings exTwoReceive) = [''test-hashring'', ''another'']"
    by (simp add: exTwoReceive_def exReceive_def exHashring_def)
  have u: "distinct (map hrName (Hashrings exTwoReceive))"
    by (simp add: names)
  have "\<exists>cm stc. buildHashringConfig exAllReadyEnv exTwoReceive exState
           = ((Some (ConfigMapObject cm), None), stc)"
    by (simp add: synth_defs ex_env_defs ex_data_defs)
  then obtain cm stc where
    bc: "buildHashringConfig exAllReadyEnv exTwoReceive exState
           = ((Some (ConfigMapObject cm), None), stc)"
    by blast
  have r1: "resolvedAddresses exAllReadyEnv (cluster exState) exTwoReceive ''test-hashring''
      \<noteq> []"
    by (simp add: resolvedAddresses_def observedSlices_def synth_defs
        ex_env_defs ex_data_defs)
  have r2: "resolvedAddresses exAllReadyEnv (cluster exState) exTwoReceive ''another'' \<noteq> []"
    by (simp add: resolvedAddresses_def observedSlices_def synth_defs
        ex_env_defs ex_data_defs)
  from C1_one_entry_per_routable_shard [OF u bc] obtain rows where
    data: "Data cm = Some rows"
    and n: "map hashring rows =
         sort (filter (\<lambda>n.
                   (\<exists>slice \<in> set (observedSlices exAllReadyEnv (cluster exState)
                                      exTwoReceive n).
                      \<exists>ep \<in> set (SliceEndpoints slice).
                        Ready ep = Some True \<and> Serving ep = Some True
                        \<and> Terminating ep \<noteq> Some True \<and> Hostname ep \<noteq> None)
                   \<or> n \<in> hashring ` set (previousHashrings exAllReadyEnv
                                            (cluster exState) exTwoReceive))
                 (map hrName (Hashrings exTwoReceive)))"
    and eq: "\<forall>n. (resolvedAddresses exAllReadyEnv (cluster exState) exTwoReceive n \<noteq> []) =
              (\<exists>slice \<in> set (observedSlices exAllReadyEnv (cluster exState)
                                 exTwoReceive n).
                 \<exists>ep \<in> set (SliceEndpoints slice).
                   Ready ep = Some True \<and> Serving ep = Some True
                   \<and> Terminating ep \<noteq> Some True \<and> Hostname ep \<noteq> None)"
    by (elim exE conjE)
  from r1 r2 eq have
    q1: "\<exists>slice \<in> set (observedSlices exAllReadyEnv (cluster exState) exTwoReceive
                         ''test-hashring'').
           \<exists>ep \<in> set (SliceEndpoints slice).
             Ready ep = Some True \<and> Serving ep = Some True
             \<and> Terminating ep \<noteq> Some True \<and> Hostname ep \<noteq> None"
    and q2: "\<exists>slice \<in> set (observedSlices exAllReadyEnv (cluster exState) exTwoReceive
                         ''another'').
           \<exists>ep \<in> set (SliceEndpoints slice).
             Ready ep = Some True \<and> Serving ep = Some True
             \<and> Terminating ep \<noteq> Some True \<and> Hostname ep \<noteq> None"
    by simp_all
  from n have "map hashring rows = [''another'', ''test-hashring'']"
    unfolding names using q1 q2 by simp
  with bc data have "\<exists>cm stc rows.
         buildHashringConfig exAllReadyEnv exTwoReceive exState
           = ((Some (ConfigMapObject cm), None), stc)
       \<and> Data cm = Some rows
       \<and> map hashring rows = [''another'', ''test-hashring'']"
    by (intro exI conjI)
  with names u show ?thesis by (intro conjI)
qed

end
